theory Spec2Isabelle
  imports Main
begin

section \<open>The debug adapter of vscode-debugger/ravidebug.c\<close>

text \<open>
  The adapter keeps two process-wide variables (\<open>debugger_state\<close> and
  \<open>thread_event_sent\<close>), reads framed requests from standard input and writes
  responses and events to standard output. The model threads a \<open>world\<close> record
  through every function: the two globals, the unread input and the trace of
  everything read and written so far. The log file is not modelled.
\<close>

subsection \<open>Session state (lines 18-30)\<close>

datatype debugger_state_t =
    DEBUGGER_BIRTH
  | DEBUGGER_INITIALIZED
  | DEBUGGER_PROGRAM_LAUNCHED
  | DEBUGGER_PROGRAM_RUNNING
  | DEBUGGER_PROGRAM_STOPPED
  | DEBUGGER_PROGRAM_TERMINATED

text \<open>The values of the enumeration, used by the comparison of line 105.\<close>

fun state_value :: "debugger_state_t \<Rightarrow> int" where
  "state_value DEBUGGER_BIRTH = 1"
| "state_value DEBUGGER_INITIALIZED = 2"
| "state_value DEBUGGER_PROGRAM_LAUNCHED = 3"
| "state_value DEBUGGER_PROGRAM_RUNNING = 4"
| "state_value DEBUGGER_PROGRAM_STOPPED = 5"
| "state_value DEBUGGER_PROGRAM_TERMINATED = 6"

subsection \<open>What protocol.h declares\<close>

text \<open>
  protocol.h is not among the sources. The constants and the sizes of the
  character arrays it declares are parameters of the model.
\<close>

record protocol_h =
  MAX_STACK_FRAMES :: int
  MAX_VARIABLES :: int
  sizeof_frame_name :: nat
  sizeof_source_path :: nat
  sizeof_source_name :: nat
  sizeof_scope_name :: nat
  sizeof_variable_name :: nat
  sizeof_thread_name :: nat

text \<open>
  The request and response codes that ravidebug.c names; \<open>VSCODE_OTHER\<close> stands
  for every other value the parser may return.
\<close>

datatype vscode_code =
    VSCODE_INITIALIZE_REQUEST
  | VSCODE_LAUNCH_REQUEST
  | VSCODE_STACK_TRACE_REQUEST
  | VSCODE_SCOPES_REQUEST
  | VSCODE_VARIABLES_REQUEST
  | VSCODE_DISCONNECT_REQUEST
  | VSCODE_SET_EXCEPTION_BREAKPOINTS_REQUEST
  | VSCODE_CONFIGURATION_DONE_REQUEST
  | VSCODE_THREAD_REQUEST
  | VSCODE_STEPIN_REQUEST
  | VSCODE_STEPOUT_REQUEST
  | VSCODE_NEXT_REQUEST
  | VSCODE_INITIALIZE_RESPONSE
  | VSCODE_LAUNCH_RESPONSE
  | VSCODE_STACK_TRACE_RESPONSE
  | VSCODE_SCOPES_RESPONSE
  | VSCODE_VARIABLES_RESPONSE
  | VSCODE_DISCONNECT_RESPONSE
  | VSCODE_SET_EXCEPTION_BREAKPOINTS_RESPONSE
  | VSCODE_CONFIGURATION_DONE_RESPONSE
  | VSCODE_THREAD_RESPONSE
  | VSCODE_STEPIN_RESPONSE
  | VSCODE_STEPOUT_RESPONSE
  | VSCODE_NEXT_RESPONSE
  | VSCODE_OTHER int

text \<open>
  A parsed request: the members of the request union that the handlers read,
  side by side.
\<close>

record Request =
  seq :: int
  command :: string
  program :: string
  levels :: int
  frameId :: int
  variablesReference :: int

record Thread =
  thread_id :: int
  thread_name :: string

record StackFrame =
  frame_id :: int
  source_path :: string
  source_name :: string
  frame_line :: int
  frame_name :: string

record Scope =
  scope_name :: string
  scope_variablesReference :: int
  scope_expensive :: int

record Variable =
  variable_name :: string

text \<open>
  The arrays of a response body are lists holding the entries written so far;
  every handler writes them at the indices 0, 1, 2, ... in this order.
\<close>

datatype ResponseBody =
    NoBody
  | InitializeResponse int
  | ThreadResponse "Thread list"
  | StackTraceResponse "StackFrame list" int
  | ScopesResponse "Scope list"
  | VariablesResponse "Variable list"

record Response =
  request_seq :: int
  response_command :: string
  response_type :: vscode_code
  success :: bool
  message :: string
  body :: ResponseBody

datatype Event =
    InitializedEvent
  | StoppedEvent string
  | ThreadEvent bool
  | TerminatedEvent
  | OutputEvent string

datatype ProtocolMessage = EventMessage Event | ResponseMessage Response

text \<open>
  Modelled from the spec: the constructors of protocol.c, which is not among
  the sources. A response echoes the request's \<open>seq\<close> and \<open>command\<close>; an error
  response carries \<open>success = false\<close> and the message; both start from an empty
  body.
\<close>

definition vscode_make_success_response :: "Request \<Rightarrow> vscode_code \<Rightarrow> Response" where
  "vscode_make_success_response req responseType =
     \<lparr>request_seq = seq req, response_command = command req,
      response_type = responseType, success = True, message = [], body = NoBody\<rparr>"

definition vscode_make_error_response :: "Request \<Rightarrow> vscode_code \<Rightarrow> string \<Rightarrow> Response" where
  "vscode_make_error_response req responseType msg =
     \<lparr>request_seq = seq req, response_command = command req,
      response_type = responseType, success = False, message = msg, body = NoBody\<rparr>"

subsection \<open>The interpreter, as far as the adapter sees it\<close>

datatype hook_event =
    LUA_HOOKCALL | LUA_HOOKRET | LUA_HOOKLINE | LUA_HOOKCOUNT | LUA_HOOKTAILCALL

datatype hook_mask = LUA_MASKCALL | LUA_MASKRET | LUA_MASKLINE | LUA_MASKCOUNT

fun mask_of :: "hook_event \<Rightarrow> hook_mask" where
  "mask_of LUA_HOOKCALL = LUA_MASKCALL"
| "mask_of LUA_HOOKTAILCALL = LUA_MASKCALL"
| "mask_of LUA_HOOKRET = LUA_MASKRET"
| "mask_of LUA_HOOKLINE = LUA_MASKLINE"
| "mask_of LUA_HOOKCOUNT = LUA_MASKCOUNT"

text \<open>
  One activation record, with what \<open>lua_getinfo\<close> and \<open>lua_getlocal\<close> report
  about it: a missing function name and a missing local are \<open>None\<close> (the C API
  returns NULL).
\<close>

record lua_Debug =
  event :: hook_event
  source :: string
  currentline :: int
  name :: "string option"
  nups :: int
  locals :: "int \<Rightarrow> string option"

text \<open>
  A hook call of a running program: the event and the call stack at that
  moment (level 0 first).
\<close>

record hook_call =
  hook_ar :: lua_Debug
  hook_stack :: "lua_Debug list"

text \<open>
  A loaded chunk, seen from outside: the hook events its execution raises, in
  order, and how the execution ends (\<open>None\<close> is LUA_OK, \<open>Some m\<close> an error with
  message \<open>m\<close>).
\<close>

record chunk =
  chunk_events :: "hook_call list"
  chunk_error :: "string option"

text \<open>
  The interpreter state: the current call stack, the installed hook mask and
  what loading a file gives (\<open>Inl m\<close> is a load error with diagnostic \<open>m\<close>).
\<close>

record lua_State =
  stack :: "lua_Debug list"
  hookmask :: "hook_mask set"
  files :: "string \<Rightarrow> string + chunk"

text \<open>
  Modelled from the spec: the interpreter is an external collaborator (its
  sources are not part of the adapter). \<open>get_frame(depth)\<close> is absent when the
  stack is shorter than \<open>depth\<close>, and for a negative level; \<open>local_name\<close> is the
  name or absent; \<open>load_program\<close> parses and prepares but does not execute.
\<close>

definition lua_getstack :: "lua_State \<Rightarrow> int \<Rightarrow> lua_Debug option" where
  "lua_getstack L level =
     (if 0 \<le> level \<and> nat level < length (stack L) then Some (stack L ! nat level) else None)"

definition lua_getlocal :: "lua_Debug \<Rightarrow> int \<Rightarrow> string option" where
  "lua_getlocal ar n = locals ar n"

definition luaL_loadfile :: "lua_State \<Rightarrow> string \<Rightarrow> string + chunk" where
  "luaL_loadfile L filename = files L filename"

definition lua_sethook :: "lua_State \<Rightarrow> hook_mask set \<Rightarrow> lua_State" where
  "lua_sethook L m = L\<lparr>hookmask := m\<rparr>"

subsection \<open>Input and output\<close>

text \<open>
  What one pass of the read loop (lines 328-350) finds on standard input:
  \<^item> \<open>Unexpected\<close>: a line without \<open>Content-Length: \<close> (line 416);
  \<^item> \<open>TooLong\<close>: a header whose length is not below the buffer size (line 335);
  \<^item> \<open>HeaderThenEnd\<close>: a header after which the input ends (line 342);
  \<^item> \<open>ShortBody\<close>: a header and a line, but fewer bytes than announced (line 345);
  \<^item> \<open>Frame c r\<close>: a complete frame, which \<open>vscode_parse_message\<close> (protocol.c,
    not among the sources) parses to the command code \<open>c\<close> and the request \<open>r\<close>.
  The end of the list is the end of the input (\<open>fgets\<close> returns NULL).
\<close>

datatype input_item =
    Unexpected
  | TooLong
  | HeaderThenEnd
  | ShortBody
  | Frame vscode_code Request

text \<open>
  The trace of the process: what it read, and what it printed. \<open>Emit m\<close> says
  that the serialisation of the message \<open>m\<close> went to standard output as it is;
  \<open>Garbled m\<close> that it went out altered by \<open>fprintf\<close> (see \<open>emit\<close> below).
\<close>

datatype io_event = Read input_item | Emit ProtocolMessage | Garbled ProtocolMessage

record world =
  debugger_state :: debugger_state_t
  thread_event_sent :: int
  input :: "input_item list"
  io :: "io_event list"

text \<open>
  A function returns, or ends the process through \<open>exit\<close> (the exit code is
  kept), or runs into behaviour that C leaves undefined; each time the world
  at that moment is kept.
\<close>

datatype 'a outcome = Exited int world | Undefined world | Returned 'a

text \<open>Doing one thing after another, as long as the process goes on.\<close>

definition andthen :: "'b outcome \<Rightarrow> ('b \<Rightarrow> 'a outcome) \<Rightarrow> 'a outcome" where
  "andthen r f =
     (case r of Exited c w \<Rightarrow> Exited c w | Undefined w \<Rightarrow> Undefined w | Returned x \<Rightarrow> f x)"

subsection \<open>C strings\<close>

text \<open>
  \<open>strncpy (dst, src, n)\<close> copies at most \<open>n\<close> characters; \<open>snprintf\<close> into a
  buffer of \<open>n\<close> bytes keeps at most \<open>n - 1\<close>. \<open>strrchr\<close> gives the part of the
  string that starts at the last occurrence of the character.
\<close>

definition strncpy :: "nat \<Rightarrow> string \<Rightarrow> string" where
  "strncpy n src = take n src"

definition snprintf :: "nat \<Rightarrow> string \<Rightarrow> string" where
  "snprintf n s = take (n - 1) s"

definition strrchr :: "string \<Rightarrow> char \<Rightarrow> string option" where
  "strrchr s c =
     (if c \<in> set s then Some (c # rev (takeWhile (\<lambda>d. d \<noteq> c) (rev s))) else None)"

text \<open>
  Writing \<open>a[i] = v\<close> into an array of which the entries below \<open>length xs\<close> have
  been written; the handlers only write at indices up to \<open>length xs\<close>.
\<close>

definition array_write :: "'a list \<Rightarrow> int \<Rightarrow> 'a \<Rightarrow> 'a list" where
  "array_write xs i v = (if nat i < length xs then xs[nat i := v] else xs @ [v])"

subsection \<open>Printing a message (lines 38-96)\<close>

text \<open>
  Every \<open>send_...\<close> function and every handler lets \<open>vscode_serialize_event\<close> or
  \<open>vscode_serialize_response\<close> write the message into a buffer of 1024 bytes,
  and then calls \<open>fprintf (out, buf)\<close>: the buffer is the format string, and
  there is no argument. (The line for the log beside it is printed with the
  format \<open>"%s\n"\<close>; the log is not modelled.) In a format, \<open>%%\<close> prints one
  \<open>%\<close>, and any other \<open>%\<close> starts a conversion for which an argument is
  missing: the behaviour is undefined.
\<close>

fun format_ok :: "string \<Rightarrow> bool" where
  "format_ok [] = True"
| "format_ok [c] = (c \<noteq> CHR ''%'')"
| "format_ok (c # d # cs) =
     (if c = CHR ''%'' then d = CHR ''%'' \<and> format_ok cs else format_ok (d # cs))"

text \<open>
  Modelled from the spec: the serialisers are in protocol.c, which is not among
  the sources. They write a Content-Length header and a compact JSON body.
  Header, JSON punctuation, numbers and field names have no \<open>%\<close>; the texts of
  the message are copied into JSON strings, where a \<open>%\<close> stays a \<open>%\<close>. So the
  \<open>%\<close> of the buffer are those of the texts below. The command echoed by the
  response to a command the parser recognised is that command's name, which
  has no \<open>%\<close>; only for other commands is it the client's own text (the parser
  gives the code of a request, and a response of one of the twelve response
  types answers a command it recognised). The buffer has 1024 bytes, and what
  the serialisers do with a message that needs more is theirs to decide:
  \<open>Emit m\<close> records that the buffer they filled for \<open>m\<close> was printed as it is
  (all of \<open>m\<close>, or as much of it as they put there), and a \<open>%\<close> of a text is
  taken to be in the buffer even where they might have cut it off.
\<close>

fun body_texts :: "ResponseBody \<Rightarrow> string list" where
  "body_texts NoBody = []"
| "body_texts (InitializeResponse n) = []"
| "body_texts (ThreadResponse ts) = map thread_name ts"
| "body_texts (StackTraceResponse fs n) =
     concat (map (\<lambda>f. [source_path f, source_name f, frame_name f]) fs)"
| "body_texts (ScopesResponse ss) = map scope_name ss"
| "body_texts (VariablesResponse vs) = map variable_name vs"

definition recognised_response :: "vscode_code \<Rightarrow> bool" where
  "recognised_response c =
     (c \<in> {VSCODE_INITIALIZE_RESPONSE, VSCODE_LAUNCH_RESPONSE, VSCODE_STACK_TRACE_RESPONSE,
            VSCODE_SCOPES_RESPONSE, VSCODE_VARIABLES_RESPONSE, VSCODE_DISCONNECT_RESPONSE,
            VSCODE_SET_EXCEPTION_BREAKPOINTS_RESPONSE, VSCODE_CONFIGURATION_DONE_RESPONSE,
            VSCODE_THREAD_RESPONSE, VSCODE_STEPIN_RESPONSE, VSCODE_STEPOUT_RESPONSE,
            VSCODE_NEXT_RESPONSE})"

fun message_texts :: "ProtocolMessage \<Rightarrow> string list" where
  "message_texts (EventMessage (StoppedEvent s)) = [s]"
| "message_texts (EventMessage (OutputEvent s)) = [s]"
| "message_texts (EventMessage e) = []"
| "message_texts (ResponseMessage r) =
     (if recognised_response (response_type r) then [] else [response_command r]) @
     message r # body_texts (body r)"

definition plain_texts :: "ProtocolMessage \<Rightarrow> bool" where
  "plain_texts m = list_all (\<lambda>t. CHR ''%'' \<notin> set t) (message_texts m)"

definition format_defined :: "ProtocolMessage \<Rightarrow> bool" where
  "format_defined m = list_all format_ok (message_texts m)"

text \<open>
  Serialising and printing a message: printed as it is when no text has a
  \<open>%\<close>; printed with every \<open>%%\<close> turned into \<open>%\<close> when these are the only
  \<open>%\<close>; undefined otherwise.
\<close>

definition emit :: "ProtocolMessage \<Rightarrow> world \<Rightarrow> world outcome" where
  "emit m w =
     (if plain_texts m then Returned (w\<lparr>io := io w @ [Emit m]\<rparr>)
      else if format_defined m then Returned (w\<lparr>io := io w @ [Garbled m]\<rparr>)
      else Undefined w)"

definition send_stopped_event :: "string \<Rightarrow> world \<Rightarrow> world outcome" where
  "send_stopped_event msg w = emit (EventMessage (StoppedEvent msg)) w"

definition send_thread_event :: "bool \<Rightarrow> world \<Rightarrow> world outcome" where
  "send_thread_event started w = emit (EventMessage (ThreadEvent started)) w"

definition send_terminated_event :: "world \<Rightarrow> world outcome" where
  "send_terminated_event w = emit (EventMessage TerminatedEvent) w"

definition send_output_event :: "string \<Rightarrow> world \<Rightarrow> world outcome" where
  "send_output_event msg w = emit (EventMessage (OutputEvent msg)) w"

definition send_error_response ::
  "Request \<Rightarrow> vscode_code \<Rightarrow> string \<Rightarrow> world \<Rightarrow> world outcome" where
  "send_error_response req responseType msg w =
     emit (ResponseMessage (vscode_make_error_response req responseType msg)) w"

definition send_success_response :: "Request \<Rightarrow> vscode_code \<Rightarrow> world \<Rightarrow> world outcome" where
  "send_success_response req responseType w =
     emit (ResponseMessage (vscode_make_success_response req responseType)) w"

subsection \<open>The handlers without recursion (lines 102-258)\<close>

definition handle_initialize_request :: "Request \<Rightarrow> world \<Rightarrow> world outcome" where
  "handle_initialize_request req w =
     (if state_value (debugger_state w) \<ge> state_value DEBUGGER_INITIALIZED then
        send_error_response req VSCODE_INITIALIZE_RESPONSE ''already initialized'' w
      else
        andthen (emit (EventMessage InitializedEvent) w) (\<lambda>w1.
        let res = vscode_make_success_response req VSCODE_INITIALIZE_RESPONSE
        in andthen (emit (ResponseMessage (res\<lparr>body := InitializeResponse 1\<rparr>)) w1) (\<lambda>w2.
           andthen (send_output_event ''Debugger initialized'' w2) (\<lambda>w3.
           Returned (w3\<lparr>debugger_state := DEBUGGER_INITIALIZED\<rparr>)))))"

definition handle_thread_request :: "protocol_h \<Rightarrow> Request \<Rightarrow> world \<Rightarrow> world outcome" where
  "handle_thread_request P req w =
     (let res = vscode_make_success_response req VSCODE_THREAD_RESPONSE;
          threads = array_write [] 0
            \<lparr>thread_id = 1, thread_name = strncpy (sizeof_thread_name P) ''Lua Thread''\<rparr>
      in emit (ResponseMessage (res\<lparr>body := ThreadResponse threads\<rparr>)) w)"

text \<open>The body of the loop of lines 151-174: the frame written at \<open>depth\<close>.\<close>

definition stack_frame_of :: "protocol_h \<Rightarrow> lua_Debug \<Rightarrow> int \<Rightarrow> StackFrame" where
  "stack_frame_of P entry depth =
     (let src = (case source entry of c # r \<Rightarrow> if c = CHR ''@'' then r else c # r | [] \<Rightarrow> []);
          last_path_delim = strrchr src CHR ''/'';
          nm = (case last_path_delim of
                  Some d \<Rightarrow> strncpy 256 (tl d)
                | None \<Rightarrow> strncpy 256 src);
          path = strncpy 1024 src;
          funcname = (case name entry of Some f \<Rightarrow> f | None \<Rightarrow> ''?'')
      in \<lparr>frame_id = depth,
          source_path = strncpy (sizeof_source_path P) path,
          source_name = strncpy (sizeof_source_name P) nm,
          frame_line = currentline entry,
          frame_name = strncpy (sizeof_frame_name P) funcname\<rparr>)"

function stack_trace_loop ::
  "protocol_h \<Rightarrow> lua_State \<Rightarrow> int \<Rightarrow> int \<Rightarrow> StackFrame list \<Rightarrow> int \<times> StackFrame list" where
  "stack_trace_loop P L lvls depth frames =
     (case lua_getstack L depth of
        Some entry \<Rightarrow>
          if depth < lvls \<and> depth < MAX_STACK_FRAMES P then
            stack_trace_loop P L lvls (depth + 1)
              (array_write frames depth (stack_frame_of P entry depth))
          else (depth, frames)
      | None \<Rightarrow> (depth, frames))"
  by pat_completeness auto
termination
  by (relation "measure (\<lambda>(P, L, lvls, depth, frames). nat (MAX_STACK_FRAMES P - depth))") auto

declare stack_trace_loop.simps [simp del]

definition handle_stack_trace_request ::
  "protocol_h \<Rightarrow> Request \<Rightarrow> lua_State \<Rightarrow> world \<Rightarrow> world outcome" where
  "handle_stack_trace_request P req L w =
     (let res = vscode_make_success_response req VSCODE_STACK_TRACE_RESPONSE;
          (depth, frames) = stack_trace_loop P L (levels req) 0 []
      in emit (ResponseMessage (res\<lparr>body := StackTraceResponse frames depth\<rparr>)) w)"

definition handle_scopes_request ::
  "protocol_h \<Rightarrow> Request \<Rightarrow> lua_State \<Rightarrow> world \<Rightarrow> world outcome" where
  "handle_scopes_request P req L w =
     (let res = vscode_make_success_response req VSCODE_SCOPES_RESPONSE;
          depth = frameId req
      in case lua_getstack L depth of
           Some entry \<Rightarrow>
             let i = 0;
                 scopes = array_write [] i
                   \<lparr>scope_name = strncpy (sizeof_scope_name P) ''Locals'',
                    scope_variablesReference = 1000000 + depth,
                    scope_expensive = 0\<rparr>;
                 i = i + 1;
                 (scopes, i) =
                   (if nups entry > 0 then
                      (array_write scopes i
                         \<lparr>scope_name = strncpy (sizeof_scope_name P) ''Up Values'',
                          scope_variablesReference = 2000000 + depth,
                          scope_expensive = 0\<rparr>, i + 1)
                    else (scopes, i));
                 scopes = array_write scopes i
                   \<lparr>scope_name = strncpy (sizeof_scope_name P) ''Globals'',
                    scope_variablesReference = 3000000 + depth,
                    scope_expensive = 1\<rparr>
             in emit (ResponseMessage (res\<lparr>body := ScopesResponse scopes\<rparr>)) w
         | None \<Rightarrow>
             emit (ResponseMessage
               (vscode_make_error_response req VSCODE_SCOPES_RESPONSE
                  ''Error retrieving stack frame'')) w)"

text \<open>
  Lines 224-238: the kind and the frame depth of a \<open>variablesReference\<close>. The
  C \<open>int\<close> is an \<open>int\<close> here: every handle the adapter emits and every depth of
  a stack is far from the bounds of a 32-bit integer. (Only for a reference
  below \<open>-2^31 + 10^6\<close> would the subtraction of line 237 overflow, which C
  leaves undefined.)
\<close>

definition decode_variablesReference :: "int \<Rightarrow> char \<times> int" where
  "decode_variablesReference varRef =
     (if varRef \<ge> 3000000 then (CHR ''g'', varRef - 3000000)
      else if varRef \<ge> 2000000 then (CHR ''u'', varRef - 2000000)
      else (CHR ''l'', varRef - 1000000))"

text \<open>
  The loop of lines 241-250. The index \<open>x\<close> of the entry written is never
  advanced in the source, so it is a constant argument here.
\<close>

function variables_loop ::
  "protocol_h \<Rightarrow> lua_Debug \<Rightarrow> int \<Rightarrow> int \<Rightarrow> Variable list \<Rightarrow> Variable list" where
  "variables_loop P entry x n vars =
     (if n < MAX_VARIABLES P then
        (case lua_getlocal entry n of
           Some nm \<Rightarrow>
             variables_loop P entry x (n + 1)
               (array_write vars x \<lparr>variable_name = strncpy (sizeof_variable_name P) nm\<rparr>)
         | None \<Rightarrow> vars)
      else vars)"
  by pat_completeness auto
termination
  by (relation "measure (\<lambda>(P, entry, x, n, vars). nat (MAX_VARIABLES P - n))") auto

declare variables_loop.simps [simp del]

definition handle_variables_request ::
  "protocol_h \<Rightarrow> Request \<Rightarrow> lua_State \<Rightarrow> world \<Rightarrow> world outcome" where
  "handle_variables_request P req L w =
     (let res = vscode_make_success_response req VSCODE_VARIABLES_RESPONSE;
          varRef = variablesReference req;
          (type, depth) = decode_variablesReference varRef
      in case (if type = CHR ''l'' then lua_getstack L depth else None) of
           Some entry \<Rightarrow>
             let x = 0;
                 vars = variables_loop P entry x 1 []
             in emit (ResponseMessage (res\<lparr>body := VariablesResponse vars\<rparr>)) w
         | None \<Rightarrow>
             emit (ResponseMessage
               (vscode_make_error_response req VSCODE_VARIABLES_RESPONSE
                  ''Error retrieving variables'')) w)"

subsection \<open>Launching, the hook and the request loop (lines 260-433)\<close>

text \<open>
  Lines 304-318 of \<open>debugger\<close>: when the program was running, the stop is
  announced and the session becomes ProgramStopped.
\<close>

definition stop_announcement :: "world \<Rightarrow> world outcome" where
  "stop_announcement w =
     (if debugger_state w = DEBUGGER_PROGRAM_RUNNING then
        andthen
          (if thread_event_sent w = 0 then
             andthen (send_thread_event True (w\<lparr>thread_event_sent := 1\<rparr>))
               (send_stopped_event ''entry'')
           else send_stopped_event ''step'' w)
          (\<lambda>w1. Returned (w1\<lparr>debugger_state := DEBUGGER_PROGRAM_STOPPED\<rparr>))
      else Returned w)"

text \<open>
  A \<open>case\<close> of the \<open>switch\<close> that calls a handler or a \<open>send_...\<close> function and
  leaves \<open>get_command\<close> with the value \<open>g\<close>.
\<close>

definition with_get_command :: "bool \<Rightarrow> world outcome \<Rightarrow> (world \<times> bool) outcome" where
  "with_get_command g r = andthen r (\<lambda>w. Returned (w, g))"

text \<open>
  \<open>handle_launch_request\<close> runs the program; the interpreter calls
  \<open>ravi_debughook\<close> for the events of the installed mask; the hook calls
  \<open>debugger\<close>, whose loop dispatches requests, among them launch requests. The
  six functions are therefore defined together. \<open>debugger_loop\<close> is the
  \<open>while\<close> loop of lines 328-420 (entered with \<open>get_command\<close> true and left when a
  handler clears it or the input ends), \<open>dispatch\<close> the \<open>switch\<close> of lines
  355-414, which also tells whether \<open>get_command\<close> is still true.
\<close>

text \<open>
  Modelled from the spec: \<open>run_loaded\<close> stands for the interpreter executing the
  loaded chunk under \<open>lua_pcall\<close> (the interpreter is not among the sources): it
  raises the chunk's hook events in order, calling the hook for those the
  installed mask covers, each time with the call stack of that moment, and
  then returns; how the execution ended is the chunk's \<open>chunk_error\<close>.
\<close>

function
  debugger :: "protocol_h \<Rightarrow> lua_State \<Rightarrow> bool \<Rightarrow> lua_Debug option \<Rightarrow> world \<Rightarrow> world outcome"
and debugger_loop :: "protocol_h \<Rightarrow> lua_State \<Rightarrow> world \<Rightarrow> world outcome"
and dispatch ::
  "protocol_h \<Rightarrow> lua_State \<Rightarrow> vscode_code \<Rightarrow> Request \<Rightarrow> world \<Rightarrow> (world \<times> bool) outcome"
and handle_launch_request :: "protocol_h \<Rightarrow> Request \<Rightarrow> lua_State \<Rightarrow> world \<Rightarrow> world outcome"
and run_loaded :: "protocol_h \<Rightarrow> lua_State \<Rightarrow> hook_call list \<Rightarrow> world \<Rightarrow> world outcome"
and ravi_debughook :: "protocol_h \<Rightarrow> lua_State \<Rightarrow> lua_Debug \<Rightarrow> world \<Rightarrow> world outcome"
where
  "debugger P L init ar w =
     (if debugger_state w = DEBUGGER_PROGRAM_TERMINATED then Returned w
      else
        case stop_announcement w of
          Exited c w1 \<Rightarrow> Exited c w1
        | Undefined w1 \<Rightarrow> Undefined w1
        | Returned w1 \<Rightarrow>
            (case debugger_loop P L w1 of
               Exited c w2 \<Rightarrow> Exited c w2
             | Undefined w2 \<Rightarrow> Undefined w2
             | Returned w2 \<Rightarrow> Returned (w2\<lparr>debugger_state := DEBUGGER_PROGRAM_RUNNING\<rparr>)))"
| "debugger_loop P L w =
     (case input w of
        [] \<Rightarrow> Returned w
      | item # rest \<Rightarrow>
          let w1 = w\<lparr>input := rest, io := io w @ [Read item]\<rparr>
          in case item of
               Unexpected \<Rightarrow> debugger_loop P L w1
             | TooLong \<Rightarrow> Exited 1 w1
             | HeaderThenEnd \<Rightarrow> Returned w1
             | ShortBody \<Rightarrow> Exited 1 w1
             | Frame cmd req \<Rightarrow>
                 (case dispatch P L cmd req w1 of
                    Exited c w2 \<Rightarrow> Exited c w2
                  | Undefined w2 \<Rightarrow> Undefined w2
                  | Returned (w2, get_command) \<Rightarrow>
                      if get_command then debugger_loop P L w2 else Returned w2))"
| "dispatch P L cmd req w =
     (case cmd of
        VSCODE_INITIALIZE_REQUEST \<Rightarrow> with_get_command True (handle_initialize_request req w)
      | VSCODE_LAUNCH_REQUEST \<Rightarrow>
          (case handle_launch_request P req L w of
             Exited c w1 \<Rightarrow> Exited c w1
           | Undefined w1 \<Rightarrow> Undefined w1
           | Returned w1 \<Rightarrow> Returned (w1, True))
      | VSCODE_STACK_TRACE_REQUEST \<Rightarrow>
          with_get_command True (handle_stack_trace_request P req L w)
      | VSCODE_SCOPES_REQUEST \<Rightarrow> with_get_command True (handle_scopes_request P req L w)
      | VSCODE_VARIABLES_REQUEST \<Rightarrow>
          with_get_command True (handle_variables_request P req L w)
      | VSCODE_DISCONNECT_REQUEST \<Rightarrow>
          andthen (send_success_response req VSCODE_DISCONNECT_RESPONSE w) (Exited 0)
      | VSCODE_SET_EXCEPTION_BREAKPOINTS_REQUEST \<Rightarrow>
          with_get_command True
            (send_success_response req VSCODE_SET_EXCEPTION_BREAKPOINTS_RESPONSE w)
      | VSCODE_CONFIGURATION_DONE_REQUEST \<Rightarrow>
          with_get_command True
            (send_success_response req VSCODE_CONFIGURATION_DONE_RESPONSE w)
      | VSCODE_THREAD_REQUEST \<Rightarrow> with_get_command True (handle_thread_request P req w)
      | VSCODE_STEPIN_REQUEST \<Rightarrow>
          with_get_command False (send_success_response req VSCODE_STEPIN_RESPONSE w)
      | VSCODE_STEPOUT_REQUEST \<Rightarrow>
          with_get_command False (send_success_response req VSCODE_STEPOUT_RESPONSE w)
      | VSCODE_NEXT_REQUEST \<Rightarrow>
          with_get_command False (send_success_response req VSCODE_NEXT_RESPONSE w)
      | _ \<Rightarrow>
          with_get_command True
            (send_error_response req cmd
               (snprintf 100 (command req @ '' not yet implemented'')) w))"
| "handle_launch_request P req L w =
     (if debugger_state w \<noteq> DEBUGGER_INITIALIZED then
        send_error_response req VSCODE_LAUNCH_RESPONSE
          ''not initialized or unexpected state'' w
      else
        let progname = program req
        in case luaL_loadfile L progname of
             Inl err \<Rightarrow>
               let temp = snprintf 1024
                     (''Failed to launch '' @ progname @ '' due to error: '' @ err)
               in andthen (send_output_event temp w)
                    (send_error_response req VSCODE_LAUNCH_RESPONSE ''Launch failed'')
           | Inr loaded \<Rightarrow>
               (case send_success_response req VSCODE_LAUNCH_RESPONSE w of
                  Exited c w1 \<Rightarrow> Exited c w1
                | Undefined w1 \<Rightarrow> Undefined w1
                | Returned w1 \<Rightarrow>
                    (case run_loaded P L (chunk_events loaded)
                            (w1\<lparr>debugger_state := DEBUGGER_PROGRAM_RUNNING\<rparr>) of
                       Exited c w3 \<Rightarrow> Exited c w3
                     | Undefined w3 \<Rightarrow> Undefined w3
                     | Returned w3 \<Rightarrow>
                         andthen
                           (case chunk_error loaded of
                              Some m \<Rightarrow>
                                andthen (send_output_event ''Program terminated with error'' w3)
                                  (send_output_event m)
                            | None \<Rightarrow> Returned w3)
                           (\<lambda>w4. andthen (send_terminated_event w4)
                              (\<lambda>w5. Returned
                                 (w5\<lparr>debugger_state := DEBUGGER_PROGRAM_TERMINATED\<rparr>))))))"
| "run_loaded P L calls w =
     (case calls of
        [] \<Rightarrow> Returned w
      | c # cs \<Rightarrow>
          if mask_of (event (hook_ar c)) \<in> hookmask L then
            (case ravi_debughook P (L\<lparr>stack := hook_stack c\<rparr>) (hook_ar c) w of
               Exited code w1 \<Rightarrow> Exited code w1
             | Undefined w1 \<Rightarrow> Undefined w1
             | Returned w1 \<Rightarrow> run_loaded P L cs w1)
          else run_loaded P L cs w)"
| "ravi_debughook P L ar w =
     (if event ar = LUA_HOOKLINE then debugger P L False (Some ar) w else Returned w)"
  by pat_completeness auto

text \<open>
  Termination: no function ever lengthens the unread input, every pass of the
  loop shortens it, and a run works through a finite list of hook events.
\<close>

definition final_world :: "world outcome \<Rightarrow> world" where
  "final_world r = (case r of Exited c w \<Rightarrow> w | Undefined w \<Rightarrow> w | Returned w \<Rightarrow> w)"

definition final_world2 :: "(world \<times> bool) outcome \<Rightarrow> world" where
  "final_world2 r = (case r of Exited c w \<Rightarrow> w | Undefined w \<Rightarrow> w | Returned (w, g) \<Rightarrow> w)"

lemma final_world_simps [simp]:
  "final_world (Exited c w) = w" "final_world (Undefined w) = w" "final_world (Returned w) = w"
  by (simp_all add: final_world_def)

lemma final_world2_simps [simp]:
  "final_world2 (Exited c w) = w" "final_world2 (Undefined w) = w"
  "final_world2 (Returned (w, g)) = w"
  by (simp_all add: final_world2_def)

lemma andthen_simps [simp]:
  "andthen (Exited c w) f = Exited c w" "andthen (Undefined w) f = Undefined w"
  "andthen (Returned x) f = f x"
  by (simp_all add: andthen_def)

lemma final_world2_with_get_command [simp]:
  "final_world2 (with_get_command g r) = final_world r"
  by (cases r) (simp_all add: with_get_command_def)

lemma final_world_exit [simp]: "final_world (andthen r (Exited c)) = final_world r"
  by (cases r) simp_all

lemma final_world2_exit [simp]: "final_world2 (andthen r (Exited c)) = final_world r"
  by (cases r) simp_all

text \<open>
  A relation between worlds that is reflexive and transitive and holds across
  the printing of every message that is neither a thread nor a stopped event,
  and across every change of the session state, holds across the handlers
  without recursion.
\<close>

fun is_stop_message :: "ProtocolMessage \<Rightarrow> bool" where
  "is_stop_message (EventMessage (ThreadEvent b)) = True"
| "is_stop_message (EventMessage (StoppedEvent r)) = True"
| "is_stop_message m = False"

lemma andthen_step:
  fixes R :: "world \<Rightarrow> world \<Rightarrow> bool"
  assumes "\<And>a b c. R a b \<Longrightarrow> R b c \<Longrightarrow> R a c"
    and "R w (final_world r)"
    and "\<And>x. r = Returned x \<Longrightarrow> R x (final_world (f x))"
  shows "R w (final_world (andthen r f))"
  using assms by (cases r) auto

lemma handlers_step:
  fixes R :: "world \<Rightarrow> world \<Rightarrow> bool"
  assumes rfl: "\<And>w. R w w"
    and trn: "\<And>a b c. R a b \<Longrightarrow> R b c \<Longrightarrow> R a c"
    and emt: "\<And>m w. \<not> is_stop_message m \<Longrightarrow> R w (final_world (emit m w))"
    and stt: "\<And>s w. R w (w\<lparr>debugger_state := s\<rparr>)"
  shows "R w (final_world (send_terminated_event w))"
    and "R w (final_world (send_output_event s w))"
    and "R w (final_world (send_error_response req t s w))"
    and "R w (final_world (send_success_response req t w))"
    and "R w (final_world (handle_initialize_request req w))"
    and "R w (final_world (handle_thread_request P req w))"
    and "R w (final_world (handle_stack_trace_request P req L w))"
    and "R w (final_world (handle_scopes_request P req L w))"
    and "R w (final_world (handle_variables_request P req L w))"
proof -
  show "R w (final_world (send_terminated_event w))"
    by (simp add: send_terminated_event_def emt)
  show out: "R w (final_world (send_output_event s w))" for s w
    by (simp add: send_output_event_def emt)
  show err: "R w (final_world (send_error_response req t s w))" for t s w
    by (simp add: send_error_response_def emt)
  show "R w (final_world (send_success_response req t w))"
    by (simp add: send_success_response_def emt)
  show "R w (final_world (handle_initialize_request req w))"
  proof (cases "state_value (debugger_state w) \<ge> state_value DEBUGGER_INITIALIZED")
    case True
    then show ?thesis using err by (simp add: handle_initialize_request_def)
  next
    case False
    have step: "R w (final_world (andthen r f))"
      if "R w (final_world r)" and "\<And>x. r = Returned x \<Longrightarrow> R x (final_world (f x))"
      for w r and f :: "world \<Rightarrow> world outcome"
      using that trn by (cases r) auto
    have "R w (final_world
      (andthen (emit (EventMessage InitializedEvent) w) (\<lambda>w1.
        andthen (emit (ResponseMessage
            ((vscode_make_success_response req VSCODE_INITIALIZE_RESPONSE)
              \<lparr>body := InitializeResponse 1\<rparr>)) w1) (\<lambda>w2.
          andthen (send_output_event ''Debugger initialized'' w2) (\<lambda>w3.
            Returned (w3\<lparr>debugger_state := DEBUGGER_INITIALIZED\<rparr>))))))"
      by (intro step emt out) (simp_all add: stt)
    then show ?thesis using False by (simp add: handle_initialize_request_def Let_def)
  qed
  show "R w (final_world (handle_thread_request P req w))"
    by (simp add: handle_thread_request_def Let_def emt)
  show "R w (final_world (handle_stack_trace_request P req L w))"
    by (simp add: handle_stack_trace_request_def Let_def emt split: prod.splits)
  show "R w (final_world (handle_scopes_request P req L w))"
    by (simp add: handle_scopes_request_def Let_def emt split: prod.splits option.splits)
  show "R w (final_world (handle_variables_request P req L w))"
    by (simp add: handle_variables_request_def Let_def emt split: prod.splits option.splits)
qed

lemma input_emit [simp]: "input (final_world (emit m w)) = input w"
  by (simp add: emit_def)

lemma state_emit [simp]: "debugger_state (final_world (emit m w)) = debugger_state w"
  by (simp add: emit_def)

lemma input_handlers:
  "input (final_world (send_terminated_event w)) = input w"
  "input (final_world (send_output_event s w)) = input w"
  "input (final_world (send_error_response req t s w)) = input w"
  "input (final_world (send_success_response req t w)) = input w"
  "input (final_world (handle_initialize_request req w)) = input w"
  "input (final_world (handle_thread_request P req w)) = input w"
  "input (final_world (handle_stack_trace_request P req L w)) = input w"
  "input (final_world (handle_scopes_request P req L w)) = input w"
  "input (final_world (handle_variables_request P req L w)) = input w"
  by (rule handlers_step [where R = "\<lambda>a b. input b = input a"]; simp)+

lemma stop_announcement_input [simp]:
  "input (final_world (stop_announcement w)) = input w"
  by (simp add: stop_announcement_def send_thread_event_def send_stopped_event_def emit_def
      andthen_def)

text \<open>
  A relation between worlds that is reflexive and transitive and holds across
  every elementary step (printing a message that is neither a thread nor a
  stopped event, setting the session state, reading an input item, announcing
  a stop as lines 304-318 do) holds between the world a function of the
  adapter starts in and the world it ends in, wherever the function is defined.
\<close>

lemma session_preserves_dom:
  fixes R :: "world \<Rightarrow> world \<Rightarrow> bool"
  assumes rfl: "\<And>w. R w w"
    and trn: "\<And>a b c. R a b \<Longrightarrow> R b c \<Longrightarrow> R a c"
    and emt: "\<And>m w. \<not> is_stop_message m \<Longrightarrow> R w (final_world (emit m w))"
    and stt: "\<And>s w. R w (w\<lparr>debugger_state := s\<rparr>)"
    and rd: "\<And>item rest w. input w = item # rest \<Longrightarrow>
          R w (w\<lparr>input := rest, io := io w @ [Read item]\<rparr>)"
    and stp: "\<And>w. R w (final_world (stop_announcement w))"
  shows
  "debugger_debugger_loop_dispatch_handle_launch_request_run_loaded_ravi_debughook_dom
     (Inl (Inl (P, L, init, ar, w))) \<Longrightarrow>
   R w (final_world (debugger P L init ar w))"
  "debugger_debugger_loop_dispatch_handle_launch_request_run_loaded_ravi_debughook_dom
     (Inl (Inr (Inl (P, L, w)))) \<Longrightarrow>
   R w (final_world (debugger_loop P L w))"
  "debugger_debugger_loop_dispatch_handle_launch_request_run_loaded_ravi_debughook_dom
     (Inl (Inr (Inr (P, L, cmd, req, w)))) \<Longrightarrow>
   R w (final_world2 (dispatch P L cmd req w))"
  "debugger_debugger_loop_dispatch_handle_launch_request_run_loaded_ravi_debughook_dom
     (Inr (Inl (P, req, L, w))) \<Longrightarrow>
   R w (final_world (handle_launch_request P req L w))"
  "debugger_debugger_loop_dispatch_handle_launch_request_run_loaded_ravi_debughook_dom
     (Inr (Inr (Inl (P, L, calls, w)))) \<Longrightarrow>
   R w (final_world (run_loaded P L calls w))"
  "debugger_debugger_loop_dispatch_handle_launch_request_run_loaded_ravi_debughook_dom
     (Inr (Inr (Inr (P, L, ar', w)))) \<Longrightarrow>
   R w (final_world (ravi_debughook P L ar' w))"
proof (induct rule:
    debugger_debugger_loop_dispatch_handle_launch_request_run_loaded_ravi_debughook.pinduct)
  case (1 P L init ar w)
  note dom = 1(1)
  show ?case
  proof (cases "debugger_state w = DEBUGGER_PROGRAM_TERMINATED")
    case True
    then show ?thesis by (simp add: debugger.psimps [OF dom] rfl)
  next
    case False
    have pre: "R w (final_world (stop_announcement w))" by (rule stp)
    show ?thesis
    proof (cases "stop_announcement w")
      case (Exited c w1)
      then show ?thesis using False pre by (simp add: debugger.psimps [OF dom])
    next
      case (Undefined w1)
      then show ?thesis using False pre by (simp add: debugger.psimps [OF dom])
    next
      case (Returned w1)
      have ih: "R w1 (final_world (debugger_loop P L w1))"
        using 1(2) [OF False Returned] .
      have r1: "R w w1" using pre Returned by simp
      have unf: "debugger P L init ar w =
          (case debugger_loop P L w1 of
             Exited c w2 \<Rightarrow> Exited c w2
           | Undefined w2 \<Rightarrow> Undefined w2
           | Returned w2 \<Rightarrow> Returned (w2\<lparr>debugger_state := DEBUGGER_PROGRAM_RUNNING\<rparr>))"
        using False Returned by (simp add: debugger.psimps [OF dom])
      show ?thesis
      proof (cases "debugger_loop P L w1")
        case (Exited c w2)
        then show ?thesis using ih r1 trn unfolding unf by auto
      next
        case (Undefined w2)
        then show ?thesis using ih r1 trn unfolding unf by auto
      next
        case (Returned w2)
        then have "R w w2" using ih r1 trn by auto
        then have "R w (w2\<lparr>debugger_state := DEBUGGER_PROGRAM_RUNNING\<rparr>)"
          using stt trn by blast
        then show ?thesis using Returned unfolding unf by simp
      qed
    qed
  qed
next
  case (2 P L w)
  note dom = 2(1)
  show ?case
  proof (cases "input w")
    case Nil
    then show ?thesis by (simp add: debugger_loop.psimps [OF dom] rfl)
  next
    case (Cons item rest)
    define w1 where "w1 = w\<lparr>input := rest, io := io w @ [Read item]\<rparr>"
    have r1: "R w w1" unfolding w1_def by (rule rd [OF Cons])
    show ?thesis
    proof (cases item)
      case Unexpected
      have ih: "R w1 (final_world (debugger_loop P L w1))"
        using 2(2) [OF Cons w1_def Unexpected] .
      have unf: "debugger_loop P L w = debugger_loop P L w1"
        using Cons Unexpected by (simp add: debugger_loop.psimps [OF dom] w1_def)
      show ?thesis using ih r1 trn unfolding unf by blast
    next
      case TooLong
      then show ?thesis using Cons r1
        by (simp add: debugger_loop.psimps [OF dom] w1_def)
    next
      case HeaderThenEnd
      then show ?thesis using Cons r1
        by (simp add: debugger_loop.psimps [OF dom] w1_def)
    next
      case ShortBody
      then show ?thesis using Cons r1
        by (simp add: debugger_loop.psimps [OF dom] w1_def)
    next
      case (Frame cmd req)
      have ih: "R w1 (final_world2 (dispatch P L cmd req w1))"
        using 2(3) [OF Cons w1_def Frame] .
      have unf: "debugger_loop P L w =
          (case dispatch P L cmd req w1 of
             Exited c w2 \<Rightarrow> Exited c w2
           | Undefined w2 \<Rightarrow> Undefined w2
           | Returned (w2, get_command) \<Rightarrow>
               if get_command then debugger_loop P L w2 else Returned w2)"
        using Cons Frame by (simp add: debugger_loop.psimps [OF dom] w1_def)
      show ?thesis
      proof (cases "dispatch P L cmd req w1")
        case (Exited c w2)
        then show ?thesis using ih r1 trn unfolding unf by auto
      next
        case (Undefined w2)
        then show ?thesis using ih r1 trn unfolding unf by auto
      next
        case (Returned x2)
        obtain w2 g where x2: "x2 = (w2, g)" by (cases x2)
        have r2: "R w w2" using ih r1 trn Returned x2 by auto
        show ?thesis
        proof (cases g)
          case True
          have "R w2 (final_world (debugger_loop P L w2))"
            using 2(4) [OF Cons w1_def Frame Returned x2 [symmetric] True] .
          then have "R w (final_world (debugger_loop P L w2))" using r2 trn by blast
          then show ?thesis using Returned x2 True unfolding unf by simp
        next
          case False
          then show ?thesis using r2 Returned x2 unfolding unf by simp
        qed
      qed
    qed
  qed
next
  case (3 P L cmd req w)
  note dom = 3(1)
  note hs = handlers_step [where R = R, OF rfl trn emt stt]
  show ?case
  proof (cases "cmd = VSCODE_LAUNCH_REQUEST")
    case True
    have ih: "R w (final_world (handle_launch_request P req L w))"
      using 3(2) [OF True] .
    have unf: "dispatch P L cmd req w =
        (case handle_launch_request P req L w of
           Exited c w1 \<Rightarrow> Exited c w1
         | Undefined w1 \<Rightarrow> Undefined w1
         | Returned w1 \<Rightarrow> Returned (w1, True))"
      by (subst dispatch.psimps [OF dom]) (simp add: True)
    show ?thesis using ih unfolding unf
      by (cases "handle_launch_request P req L w") simp_all
  next
    case False
    show ?thesis using False
      by (subst dispatch.psimps [OF dom]) (cases cmd; simp add: hs)
  qed
next
  case (4 P req L w)
  note dom = 4(1)
  note hs = handlers_step [where R = R, OF rfl trn emt stt]
  note step = andthen_step [where R = R, OF trn]
  show ?case
  proof (cases "debugger_state w \<noteq> DEBUGGER_INITIALIZED")
    case True
    then show ?thesis by (simp add: handle_launch_request.psimps [OF dom] hs)
  next
    case False
    show ?thesis
    proof (cases "luaL_loadfile L (program req)")
      case (Inl e)
      have "R w (final_world (andthen
          (send_output_event
            (snprintf 1024 (''Failed to launch '' @ program req @ '' due to error: '' @ e)) w)
          (send_error_response req VSCODE_LAUNCH_RESPONSE ''Launch failed'')))"
        by (intro step hs)
      then show ?thesis using False Inl
        by (simp add: handle_launch_request.psimps [OF dom] Let_def)
    next
      case (Inr loaded)
      have r1: "R w (final_world (send_success_response req VSCODE_LAUNCH_RESPONSE w))"
        by (rule hs)
      show ?thesis
      proof (cases "send_success_response req VSCODE_LAUNCH_RESPONSE w")
        case (Exited c w1)
        then show ?thesis using False Inr r1
          by (simp add: handle_launch_request.psimps [OF dom] Let_def)
      next
        case (Undefined w1)
        then show ?thesis using False Inr r1
          by (simp add: handle_launch_request.psimps [OF dom] Let_def)
      next
        case (Returned w1)
        define w2 where "w2 = w1\<lparr>debugger_state := DEBUGGER_PROGRAM_RUNNING\<rparr>"
        have ih: "R w2 (final_world (run_loaded P L (chunk_events loaded) w2))"
          unfolding w2_def using 4(2) [OF False refl Inr Returned] .
        have "R w w1" using r1 Returned by simp
        then have r2: "R w w2" unfolding w2_def using stt trn by blast
        show ?thesis
        proof (cases "run_loaded P L (chunk_events loaded) w2")
          case (Exited c w3)
          then show ?thesis using ih r2 trn False Inr Returned
            by (auto simp: handle_launch_request.psimps [OF dom] Let_def w2_def)
        next
          case (Undefined w3)
          then show ?thesis using ih r2 trn False Inr Returned
            by (auto simp: handle_launch_request.psimps [OF dom] Let_def w2_def)
        next
          case run: (Returned w3)
          then have r3: "R w w3" using ih r2 trn by auto
          have inner: "R w3 (final_world
              (case chunk_error loaded of
                 Some m \<Rightarrow>
                   andthen (send_output_event ''Program terminated with error'' w3)
                     (send_output_event m)
               | None \<Rightarrow> Returned w3))"
            by (cases "chunk_error loaded") (auto intro: rfl step hs)
          have "R w3 (final_world
              (andthen
                 (case chunk_error loaded of
                    Some m \<Rightarrow>
                      andthen (send_output_event ''Program terminated with error'' w3)
                        (send_output_event m)
                  | None \<Rightarrow> Returned w3)
                 (\<lambda>w4. andthen (send_terminated_event w4)
                    (\<lambda>w5. Returned (w5\<lparr>debugger_state := DEBUGGER_PROGRAM_TERMINATED\<rparr>)))))"
            by (intro step hs inner) (simp_all add: stt)
          then have "R w (final_world
              (andthen
                 (case chunk_error loaded of
                    Some m \<Rightarrow>
                      andthen (send_output_event ''Program terminated with error'' w3)
                        (send_output_event m)
                  | None \<Rightarrow> Returned w3)
                 (\<lambda>w4. andthen (send_terminated_event w4)
                    (\<lambda>w5. Returned (w5\<lparr>debugger_state := DEBUGGER_PROGRAM_TERMINATED\<rparr>)))))"
            using r3 trn by blast
          then show ?thesis using False Inr Returned run
            by (simp add: handle_launch_request.psimps [OF dom] Let_def w2_def)
        qed
      qed
    qed
  qed
next
  case (5 P L calls w)
  note dom = 5(1)
  show ?case
  proof (cases calls)
    case Nil
    show ?thesis by (subst run_loaded.psimps [OF dom]) (simp add: Nil rfl)
  next
    case (Cons c cs)
    show ?thesis
    proof (cases "mask_of (event (hook_ar c)) \<in> hookmask L")
      case True
      have ih: "R w (final_world (ravi_debughook P (L\<lparr>stack := hook_stack c\<rparr>) (hook_ar c) w))"
        using 5(2) [OF Cons True] .
      show ?thesis
      proof (cases "ravi_debughook P (L\<lparr>stack := hook_stack c\<rparr>) (hook_ar c) w")
        case (Exited code w1)
        show ?thesis using ih True Exited
          by (subst run_loaded.psimps [OF dom]) (simp add: Cons)
      next
        case (Undefined w1)
        show ?thesis using ih True Undefined
          by (subst run_loaded.psimps [OF dom]) (simp add: Cons)
      next
        case (Returned w1)
        have "R w1 (final_world (run_loaded P L cs w1))"
          using 5(3) [OF Cons True Returned] .
        then have "R w (final_world (run_loaded P L cs w1))"
          using ih Returned trn by auto
        then show ?thesis using True Returned
          by (subst run_loaded.psimps [OF dom]) (simp add: Cons)
      qed
    next
      case False
      have "R w (final_world (run_loaded P L cs w))"
        using 5(4) [OF Cons False] .
      then show ?thesis using False
        by (subst run_loaded.psimps [OF dom]) (simp add: Cons)
    qed
  qed
next
  case (6 P L ar w)
  note dom = 6(1)
  show ?case
  proof (cases "event ar = LUA_HOOKLINE")
    case True
    then show ?thesis using 6(2) [OF True] by (simp add: ravi_debughook.psimps [OF dom])
  next
    case False
    then show ?thesis by (simp add: ravi_debughook.psimps [OF dom] rfl)
  qed
qed

lemma input_shrinks_dom:
  "debugger_debugger_loop_dispatch_handle_launch_request_run_loaded_ravi_debughook_dom
     (Inl (Inr (Inr (P, L, cmd, req, w)))) \<Longrightarrow>
   length (input (final_world2 (dispatch P L cmd req w))) \<le> length (input w)"
  "debugger_debugger_loop_dispatch_handle_launch_request_run_loaded_ravi_debughook_dom
     (Inr (Inr (Inr (P, L, ar', w)))) \<Longrightarrow>
   length (input (final_world (ravi_debughook P L ar' w))) \<le> length (input w)"
proof -
  define R where "R = (\<lambda>(a::world) (b::world). length (input b) \<le> length (input a))"
  have rfl: "R w w" for w by (simp add: R_def)
  have trn: "R a b \<Longrightarrow> R b c \<Longrightarrow> R a c" for a b c by (auto simp: R_def)
  have emt: "\<not> is_stop_message m \<Longrightarrow> R w (final_world (emit m w))" for m w
    by (simp add: R_def)
  have stt: "R w (w\<lparr>debugger_state := s\<rparr>)" for s w by (simp add: R_def)
  have rd: "input w = item # rest \<Longrightarrow> R w (w\<lparr>input := rest, io := io w @ [Read item]\<rparr>)"
    for item rest w by (simp add: R_def)
  have stp: "R w (final_world (stop_announcement w))" for w by (simp add: R_def)
  assume "debugger_debugger_loop_dispatch_handle_launch_request_run_loaded_ravi_debughook_dom
     (Inl (Inr (Inr (P, L, cmd, req, w))))"
  then have "R w (final_world2 (dispatch P L cmd req w))"
    by (rule session_preserves_dom(3) [where R = R, rotated -1]) (fact rfl trn emt stt rd stp)+
  then show "length (input (final_world2 (dispatch P L cmd req w))) \<le> length (input w)"
    by (simp add: R_def)
next
  define R where "R = (\<lambda>(a::world) (b::world). length (input b) \<le> length (input a))"
  have rfl: "R w w" for w by (simp add: R_def)
  have trn: "R a b \<Longrightarrow> R b c \<Longrightarrow> R a c" for a b c by (auto simp: R_def)
  have emt: "\<not> is_stop_message m \<Longrightarrow> R w (final_world (emit m w))" for m w
    by (simp add: R_def)
  have stt: "R w (w\<lparr>debugger_state := s\<rparr>)" for s w by (simp add: R_def)
  have rd: "input w = item # rest \<Longrightarrow> R w (w\<lparr>input := rest, io := io w @ [Read item]\<rparr>)"
    for item rest w by (simp add: R_def)
  have stp: "R w (final_world (stop_announcement w))" for w by (simp add: R_def)
  assume "debugger_debugger_loop_dispatch_handle_launch_request_run_loaded_ravi_debughook_dom
     (Inr (Inr (Inr (P, L, ar', w))))"
  then have "R w (final_world (ravi_debughook P L ar' w))"
    by (rule session_preserves_dom(6) [where R = R, rotated -1]) (fact rfl trn emt stt rd stp)+
  then show "length (input (final_world (ravi_debughook P L ar' w))) \<le> length (input w)"
    by (simp add: R_def)
qed

lemma session_dom:
  "All debugger_debugger_loop_dispatch_handle_launch_request_run_loaded_ravi_debughook_dom"
  apply (relation "inv_image (less_than <*lex*> less_than <*lex*> less_than)
     (\<lambda>x. case x of
         Inl (Inl (P, L, init, ar, w)) \<Rightarrow> (length (input w), 1::nat, 0::nat)
       | Inl (Inr (Inl (P, L, w))) \<Rightarrow> (length (input w), 0, 0)
       | Inl (Inr (Inr (P, L, cmd, req, w))) \<Rightarrow> (length (input w), 5, 0)
       | Inr (Inl (P, req, L, w)) \<Rightarrow> (length (input w), 4, 0)
       | Inr (Inr (Inl (P, L, calls, w))) \<Rightarrow> (length (input w), 3, length calls)
       | Inr (Inr (Inr (P, L, ar, w))) \<Rightarrow> (length (input w), 2, 0))")
  apply (simp_all add: wf_lex_prod)
  subgoal for w x3
    using stop_announcement_input [of w] by simp
  subgoal for P L w x21 x22 x x51 x52 x3 xa y
    using input_shrinks_dom(1)
      [of P L x51 x52 "w\<lparr>input := x22, io := io w @ [Read (Frame x51 x52)]\<rparr>"]
    by auto
  subgoal for req L w x b x3
    using input_handlers(4) [of req VSCODE_LAUNCH_RESPONSE w] by simp
  subgoal for P L calls w x21 x22 x3
    using input_shrinks_dom(2) [of P "L\<lparr>stack := hook_stack x21\<rparr>" "hook_ar x21" w]
    by auto
  done

termination debugger
  by (rule session_dom)

declare debugger.simps [simp del] debugger_loop.simps [simp del] dispatch.simps [simp del]
  handle_launch_request.simps [simp del] run_loaded.simps [simp del]
  ravi_debughook.simps [simp del]

subsection \<open>main (lines 440-461)\<close>

text \<open>
  \<open>main\<close> ends the process: the result is the exit code, if the run has a
  defined one, and the final world. Whether the log file opens and whether
  \<open>luaL_newstate\<close> gives a state are arguments. The hook is installed for call,
  line and return events.
\<close>

definition main_hook_mask :: "hook_mask set" where
  "main_hook_mask = {LUA_MASKCALL, LUA_MASKLINE, LUA_MASKRET}"

definition main ::
  "protocol_h \<Rightarrow> bool \<Rightarrow> lua_State option \<Rightarrow> input_item list \<Rightarrow> int option \<times> world" where
  "main P log_opened newstate inp =
     (let w = \<lparr>debugger_state = DEBUGGER_BIRTH, thread_event_sent = 0, input = inp, io = []\<rparr>
      in if \<not> log_opened then (Some 1, w)
         else case newstate of
                None \<Rightarrow> (Some 1, w)
              | Some L0 \<Rightarrow>
                  let L = lua_sethook L0 main_hook_mask;
                      w1 = w\<lparr>debugger_state := DEBUGGER_BIRTH\<rparr>
                  in case debugger P L True None w1 of
                       Exited c w2 \<Rightarrow> (Some c, w2)
                     | Undefined w2 \<Rightarrow> (None, w2)
                     | Returned w2 \<Rightarrow> (Some 0, w2))"

subsection \<open>The specification's vocabulary\<close>

text \<open>
  These definitions follow the specification's words, not the source: the three
  scope kinds with their handle bases, the handle encoding
  \<open>kind_base + frame_depth\<close>, and the table of admissible commands per state of
  section 4.4: Birth admits \<open>initialize\<close> only; ProgramRunning and
  ProgramTerminated admit \<open>disconnect\<close> (the transition from any state), as
  does ProgramLaunched, a state of the source's \<open>enum\<close> that the specification
  does not have and the source never enters. \<open>kind_type\<close> is the character
  by which lines 227-238 of the source name a kind, and \<open>implemented\<close> holds of
  the twelve commands that have a \<open>case\<close> in the \<open>switch\<close> of the source.
\<close>

datatype scope_kind = Locals | Upvalues | Globals

fun kind_base :: "scope_kind \<Rightarrow> int" where
  "kind_base Locals = 1000000"
| "kind_base Upvalues = 2000000"
| "kind_base Globals = 3000000"

definition encode_handle :: "scope_kind \<Rightarrow> int \<Rightarrow> int" where
  "encode_handle kind depth = kind_base kind + depth"

fun kind_type :: "scope_kind \<Rightarrow> char" where
  "kind_type Locals = CHR ''l''"
| "kind_type Upvalues = CHR ''u''"
| "kind_type Globals = CHR ''g''"

fun legality_table :: "debugger_state_t \<Rightarrow> vscode_code \<Rightarrow> bool" where
  "legality_table DEBUGGER_BIRTH c = (c = VSCODE_INITIALIZE_REQUEST)"
| "legality_table DEBUGGER_INITIALIZED c =
     (c = VSCODE_LAUNCH_REQUEST \<or> c = VSCODE_SET_EXCEPTION_BREAKPOINTS_REQUEST \<or>
      c = VSCODE_CONFIGURATION_DONE_REQUEST \<or> c = VSCODE_DISCONNECT_REQUEST)"
| "legality_table DEBUGGER_PROGRAM_STOPPED c =
     (c = VSCODE_THREAD_REQUEST \<or> c = VSCODE_STACK_TRACE_REQUEST \<or>
      c = VSCODE_SCOPES_REQUEST \<or> c = VSCODE_VARIABLES_REQUEST \<or>
      c = VSCODE_STEPIN_REQUEST \<or> c = VSCODE_STEPOUT_REQUEST \<or>
      c = VSCODE_NEXT_REQUEST \<or> c = VSCODE_DISCONNECT_REQUEST)"
| "legality_table DEBUGGER_PROGRAM_LAUNCHED c = (c = VSCODE_DISCONNECT_REQUEST)"
| "legality_table DEBUGGER_PROGRAM_RUNNING c = (c = VSCODE_DISCONNECT_REQUEST)"
| "legality_table DEBUGGER_PROGRAM_TERMINATED c = (c = VSCODE_DISCONNECT_REQUEST)"

definition implemented :: "vscode_code \<Rightarrow> bool" where
  "implemented c =
     (c \<in> {VSCODE_INITIALIZE_REQUEST, VSCODE_LAUNCH_REQUEST, VSCODE_STACK_TRACE_REQUEST,
            VSCODE_SCOPES_REQUEST, VSCODE_VARIABLES_REQUEST, VSCODE_DISCONNECT_REQUEST,
            VSCODE_SET_EXCEPTION_BREAKPOINTS_REQUEST, VSCODE_CONFIGURATION_DONE_REQUEST,
            VSCODE_THREAD_REQUEST, VSCODE_STEPIN_REQUEST, VSCODE_STEPOUT_REQUEST,
            VSCODE_NEXT_REQUEST})"

text \<open>
  The names the loop of lines 241-250 is to visit: those of the locals
  \<open>n = 1, ..., MAX_VARIABLES - 1\<close>, up to the first absent one.
\<close>

definition local_names :: "protocol_h \<Rightarrow> lua_Debug \<Rightarrow> string list" where
  "local_names P entry =
     map the (takeWhile (\<lambda>nm. nm \<noteq> None) (map (lua_getlocal entry) [1 .. MAX_VARIABLES P - 1]))"

text \<open>
  The handles the adapter has emitted: the \<open>variablesReference\<close> of every scope
  of every scopes response written so far (numbers are printed as they are also
  in a message whose texts held \<open>%%\<close>).
\<close>

fun handles_of_message :: "ProtocolMessage \<Rightarrow> int list" where
  "handles_of_message (ResponseMessage r) =
     (case body r of ScopesResponse scopes \<Rightarrow> map scope_variablesReference scopes | _ \<Rightarrow> [])"
| "handles_of_message (EventMessage e) = []"

fun emitted_handles :: "io_event list \<Rightarrow> int list" where
  "emitted_handles [] = []"
| "emitted_handles (Emit m # es) = handles_of_message m @ emitted_handles es"
| "emitted_handles (Garbled m # es) = handles_of_message m @ emitted_handles es"
| "emitted_handles (Read i # es) = emitted_handles es"

text \<open>
  The thread and stopped events of a trace, in the order of their emission, and
  the first-stop contract on them: either there is none, or the first is the
  thread event with \<open>started = true\<close>, the second the stopped event with reason
  "entry", and all others are stopped events with reason "step".
  \<open>stop_invariant\<close> ties the contract to the flag \<open>thread_event_sent\<close>.
\<close>

fun stop_event_of_message :: "ProtocolMessage \<Rightarrow> Event list" where
  "stop_event_of_message (EventMessage (ThreadEvent b)) = [ThreadEvent b]"
| "stop_event_of_message (EventMessage (StoppedEvent r)) = [StoppedEvent r]"
| "stop_event_of_message m = []"

fun stop_event_of :: "io_event \<Rightarrow> Event list" where
  "stop_event_of (Emit m) = stop_event_of_message m"
| "stop_event_of (Garbled m) = stop_event_of_message m"
| "stop_event_of (Read i) = []"

definition stop_events :: "io_event list \<Rightarrow> Event list" where
  "stop_events es = concat (map stop_event_of es)"

fun first_stop_contract :: "Event list \<Rightarrow> bool" where
  "first_stop_contract [] = True"
| "first_stop_contract [t] = False"
| "first_stop_contract (t # s # rest) =
     (t = ThreadEvent True \<and> s = StoppedEvent ''entry'' \<and>
      rest = replicate (length rest) (StoppedEvent ''step''))"

definition stop_invariant :: "world \<Rightarrow> bool" where
  "stop_invariant w \<longleftrightarrow>
     first_stop_contract (stop_events (io w)) \<and>
     (thread_event_sent w = 0 \<longleftrightarrow> stop_events (io w) = [])"

subsection \<open>Concrete data for the examples\<close>

definition P0 :: protocol_h where
  "P0 = \<lparr>MAX_STACK_FRAMES = 20, MAX_VARIABLES = 120, sizeof_frame_name = 256,
          sizeof_source_path = 1024, sizeof_source_name = 256, sizeof_scope_name = 32,
          sizeof_variable_name = 256, sizeof_thread_name = 32\<rparr>"

definition req0 :: Request where
  "req0 = \<lparr>seq = 1, command = ''threads'', program = [], levels = 0, frameId = 0,
           variablesReference = 0\<rparr>"

definition frame0 :: lua_Debug where
  "frame0 = \<lparr>event = LUA_HOOKLINE, source = ''@/a/b.lua'', currentline = 1, name = None,
             nups = 0, locals = (\<lambda>n. if n = 1 then Some ''x'' else None)\<rparr>"

definition L0 :: lua_State where
  "L0 = \<lparr>stack = [], hookmask = {}, files = (\<lambda>f. Inl ''cannot open file'')\<rparr>"

definition L1 :: lua_State where
  "L1 = L0\<lparr>stack := [frame0]\<rparr>"

definition w_birth :: world where
  "w_birth = \<lparr>debugger_state = DEBUGGER_BIRTH, thread_event_sent = 0, input = [], io = []\<rparr>"

definition L2 :: lua_State where
  "L2 = L0\<lparr>stack := [frame0, frame0]\<rparr>"

definition w_init :: world where
  "w_init = \<lparr>debugger_state = DEBUGGER_INITIALIZED, thread_event_sent = 0,
             input = [Frame VSCODE_STACK_TRACE_REQUEST (req0\<lparr>levels := 20\<rparr>),
                      Frame VSCODE_NEXT_REQUEST req0,
                      Frame VSCODE_STEPIN_REQUEST req0],
             io = []\<rparr>"

definition line_hook :: hook_call where
  "line_hook = \<lparr>hook_ar = frame0, hook_stack = [frame0]\<rparr>"

definition call_hook :: hook_call where
  "call_hook = \<lparr>hook_ar = frame0\<lparr>event := LUA_HOOKCALL\<rparr>, hook_stack = [frame0]\<rparr>"

definition L_prog :: lua_State where
  "L_prog = \<lparr>stack = [], hookmask = main_hook_mask,
            files = (\<lambda>f. if f = ''a.lua''
                          then Inr \<lparr>chunk_events = [call_hook, line_hook, line_hook],
                                  chunk_error = None\<rparr>
                          else Inl ''cannot open file'')\<rparr>"

definition req_launch :: Request where
  "req_launch = \<lparr>seq = 2, command = ''launch'', program = ''a.lua'', levels = 0, frameId = 0,
           variablesReference = 0\<rparr>"

definition req_percent :: Request where
  "req_percent = req_launch\<lparr>program := ''%s%s%s%s.lua''\<rparr>"

definition session_input :: "input_item list" where
  "session_input =
     [Frame VSCODE_INITIALIZE_REQUEST req0,
      Frame VSCODE_LAUNCH_REQUEST req_launch,
      Frame VSCODE_STACK_TRACE_REQUEST (req0\<lparr>levels := 20\<rparr>),
      Frame VSCODE_NEXT_REQUEST req0,
      Frame VSCODE_STEPIN_REQUEST req0]"

definition w_running :: world where
  "w_running = \<lparr>debugger_state = DEBUGGER_PROGRAM_RUNNING, thread_event_sent = 0,
                input = [Frame VSCODE_NEXT_REQUEST req0], io = []\<rparr>"

text \<open>The world after the scopes request for frame 0 has been served in \<open>w_birth\<close>.\<close>

definition w_scopes :: world where
  "w_scopes = w_birth\<lparr>io := [Emit (ResponseMessage
       \<lparr>request_seq = 1, response_command = ''threads'',
        response_type = VSCODE_SCOPES_RESPONSE, success = True, message = [],
        body = ScopesResponse
          [\<lparr>scope_name = ''Locals'', scope_variablesReference = 1000000,
            scope_expensive = 0\<rparr>,
           \<lparr>scope_name = ''Globals'', scope_variablesReference = 3000000,
            scope_expensive = 1\<rparr>]\<rparr>)]\<rparr>"

section \<open>Properties\<close>

subsection \<open>Variable references\<close>

text \<open>
  Claim C4. For every scope kind and every frame depth \<open>0 \<le> depth < 10^6\<close>,
  decoding the handle \<open>kind_base + depth\<close> with lines 227-238 of the source gives
  back the kind (as its type character) and the depth.
\<close>

theorem handle_round_trip:
  assumes "0 \<le> depth" and "depth < 1000000"
  shows "decode_variablesReference (encode_handle kind depth) = (kind_type kind, depth)"
  using assms by (cases kind) (simp_all add: decode_variablesReference_def encode_handle_def)

theorem handle_round_trip_witness:
  "(0::int) \<le> 7 \<and> (7::int) < 1000000 \<and>
   decode_variablesReference (encode_handle Upvalues 7) = (kind_type Upvalues, 7)"
  using handle_round_trip [of 7 Upvalues] by simp

subsection \<open>What a printed message leaves on the trace\<close>

lemma plain_strncpy: "CHR ''%'' \<notin> set s \<Longrightarrow> CHR ''%'' \<notin> set (strncpy n s)"
  by (auto simp: strncpy_def dest: in_set_takeD)

subsection \<open>The initialize request\<close>

text \<open>
  Claim C9. An initialize request received in state Birth makes the adapter
  emit, in this order, the initialized event, a success response whose body
  has \<open>supportsConfigurationDoneRequest = 1\<close>, and the output event
  "Debugger initialized", and moves the session to Initialized; nothing is read
  and the loop goes on. In every later state the only output is an error
  response ("already initialized") and the state stays as it is.
\<close>

theorem initialize_handshake:
  "(debugger_state w = DEBUGGER_BIRTH \<longrightarrow>
      dispatch P L VSCODE_INITIALIZE_REQUEST req w =
        Returned (w\<lparr>debugger_state := DEBUGGER_INITIALIZED,
                    io := io w @
                      [Emit (EventMessage InitializedEvent),
                       Emit (ResponseMessage
                         \<lparr>request_seq = seq req, response_command = command req,
                          response_type = VSCODE_INITIALIZE_RESPONSE, success = True,
                          message = [], body = InitializeResponse 1\<rparr>),
                       Emit (EventMessage (OutputEvent ''Debugger initialized''))]\<rparr>, True)) \<and>
   (debugger_state w \<noteq> DEBUGGER_BIRTH \<longrightarrow>
      dispatch P L VSCODE_INITIALIZE_REQUEST req w =
        Returned (w\<lparr>io := io w @
                      [Emit (ResponseMessage
                         \<lparr>request_seq = seq req, response_command = command req,
                          response_type = VSCODE_INITIALIZE_RESPONSE, success = False,
                          message = ''already initialized'', body = NoBody\<rparr>)]\<rparr>, True))"
  by (cases "debugger_state w")
    (simp_all add: dispatch.simps with_get_command_def handle_initialize_request_def
      send_error_response_def send_output_event_def emit_def plain_texts_def
      recognised_response_def vscode_make_success_response_def
      vscode_make_error_response_def Let_def)

theorem initialize_handshake_witness:
  "debugger_state w_birth = DEBUGGER_BIRTH \<and>
   dispatch P0 L0 VSCODE_INITIALIZE_REQUEST req0 w_birth =
     Returned (w_birth\<lparr>debugger_state := DEBUGGER_INITIALIZED,
                 io := [Emit (EventMessage InitializedEvent),
                        Emit (ResponseMessage
                          \<lparr>request_seq = 1, response_command = ''threads'',
                           response_type = VSCODE_INITIALIZE_RESPONSE, success = True,
                           message = [], body = InitializeResponse 1\<rparr>),
                        Emit (EventMessage (OutputEvent ''Debugger initialized''))]\<rparr>, True) \<and>
   debugger_state (w_birth\<lparr>debugger_state := DEBUGGER_PROGRAM_STOPPED\<rparr>) \<noteq> DEBUGGER_BIRTH \<and>
   dispatch P0 L0 VSCODE_INITIALIZE_REQUEST req0
       (w_birth\<lparr>debugger_state := DEBUGGER_PROGRAM_STOPPED\<rparr>) =
     Returned (w_birth\<lparr>debugger_state := DEBUGGER_PROGRAM_STOPPED,
                 io := [Emit (ResponseMessage
                          \<lparr>request_seq = 1, response_command = ''threads'',
                           response_type = VSCODE_INITIALIZE_RESPONSE, success = False,
                           message = ''already initialized'', body = NoBody\<rparr>)]\<rparr>, True)"
  using initialize_handshake [of w_birth P0 L0 req0]
    initialize_handshake [of "w_birth\<lparr>debugger_state := DEBUGGER_PROGRAM_STOPPED\<rparr>" P0 L0 req0]
  by (simp add: w_birth_def req0_def)

subsection \<open>The stackTrace request\<close>

text \<open>
  The loop of line 151 stops at the first depth that is not below \<open>levels\<close>,
  \<open>MAX_STACK_FRAMES\<close> and the stack depth, and has written one frame per depth
  passed.
\<close>

lemma lua_getstack_Some_iff:
  "lua_getstack L d = Some e \<longleftrightarrow> 0 \<le> d \<and> nat d < length (stack L) \<and> e = stack L ! nat d"
  by (auto simp: lua_getstack_def)

lemma lua_getstack_None_iff:
  "lua_getstack L d = None \<longleftrightarrow> \<not> (0 \<le> d \<and> nat d < length (stack L))"
  by (auto simp: lua_getstack_def)





subsection \<open>The scopes request\<close>

text \<open>
  Claim C8. When the frame \<open>frameId\<close> exists, the response holds the Locals
  scope (not expensive), then the Upvalues scope (not expensive; the source
  names it "Up Values") exactly when the frame reports more than 0 upvalues,
  then the Globals scope (expensive), each with the encoded handle of its kind
  and \<open>frameId\<close> as \<open>variablesReference\<close>. When the frame does not exist, the
  handler emits an error response. Either way that response is all the handler
  prints, and it goes to the trace as it is.
\<close>

theorem scopes_response:
  "(lua_getstack L (frameId req) = Some entry \<longrightarrow>
      handle_scopes_request P req L w =
        Returned (w\<lparr>io := io w @ [Emit (ResponseMessage
          \<lparr>request_seq = seq req, response_command = command req,
           response_type = VSCODE_SCOPES_RESPONSE, success = True, message = [],
           body = ScopesResponse
             (\<lparr>scope_name = strncpy (sizeof_scope_name P) ''Locals'',
               scope_variablesReference = encode_handle Locals (frameId req),
               scope_expensive = 0\<rparr> #
              (if nups entry > 0 then
                 [\<lparr>scope_name = strncpy (sizeof_scope_name P) ''Up Values'',
                   scope_variablesReference = encode_handle Upvalues (frameId req),
                   scope_expensive = 0\<rparr>]
               else []) @
              [\<lparr>scope_name = strncpy (sizeof_scope_name P) ''Globals'',
                scope_variablesReference = encode_handle Globals (frameId req),
                scope_expensive = 1\<rparr>])\<rparr>)]\<rparr>)) \<and>
   (lua_getstack L (frameId req) = None \<longrightarrow>
      handle_scopes_request P req L w =
        Returned (w\<lparr>io := io w @ [Emit (ResponseMessage
          \<lparr>request_seq = seq req, response_command = command req,
           response_type = VSCODE_SCOPES_RESPONSE, success = False,
           message = ''Error retrieving stack frame'', body = NoBody\<rparr>)]\<rparr>))"
  by (simp add: handle_scopes_request_def Let_def array_write_def encode_handle_def
      vscode_make_success_response_def vscode_make_error_response_def emit_def
      plain_texts_def recognised_response_def plain_strncpy)

theorem scopes_response_witness:
  "lua_getstack L1 (frameId req0) = Some frame0 \<and>
   handle_scopes_request P0 req0 L1 w_birth =
     Returned (w_birth\<lparr>io := [Emit (ResponseMessage
       \<lparr>request_seq = 1, response_command = ''threads'',
        response_type = VSCODE_SCOPES_RESPONSE, success = True, message = [],
        body = ScopesResponse
          [\<lparr>scope_name = ''Locals'', scope_variablesReference = 1000000,
            scope_expensive = 0\<rparr>,
           \<lparr>scope_name = ''Globals'', scope_variablesReference = 3000000,
            scope_expensive = 1\<rparr>]\<rparr>)]\<rparr>) \<and>
   lua_getstack L1 (frameId (req0\<lparr>frameId := 1\<rparr>)) = None \<and>
   handle_scopes_request P0 (req0\<lparr>frameId := 1\<rparr>) L1 w_birth =
     Returned (w_birth\<lparr>io := [Emit (ResponseMessage
       \<lparr>request_seq = 1, response_command = ''threads'',
        response_type = VSCODE_SCOPES_RESPONSE, success = False,
        message = ''Error retrieving stack frame'', body = NoBody\<rparr>)]\<rparr>)"
  using scopes_response [of L1 req0 frame0 P0 w_birth]
    scopes_response [of L1 "req0\<lparr>frameId := 1\<rparr>" frame0 P0 w_birth]
  by (simp add: lua_getstack_def L1_def L0_def req0_def frame0_def P0_def strncpy_def
      encode_handle_def w_birth_def)

subsection \<open>The hook\<close>

text \<open>
  Claim C10. \<open>main\<close> installs the hook with the mask of call, line and return
  events. A hook call for any event but a line event returns at once with the
  world as it was: nothing emitted, nothing read, the session state unchanged.
  So a call or return event of a running program, although delivered to the
  hook, leaves no trace.
\<close>

theorem hook_ignores_call_and_return:
  "hookmask (lua_sethook L main_hook_mask) = {LUA_MASKCALL, LUA_MASKLINE, LUA_MASKRET} \<and>
   (event ar \<noteq> LUA_HOOKLINE \<longrightarrow>
      ravi_debughook P (lua_sethook L main_hook_mask) ar w = Returned w) \<and>
   (event (hook_ar c) = LUA_HOOKCALL \<or> event (hook_ar c) = LUA_HOOKRET \<longrightarrow>
      mask_of (event (hook_ar c)) \<in> hookmask (lua_sethook L main_hook_mask) \<and>
      run_loaded P (lua_sethook L main_hook_mask) (c # cs) w =
        run_loaded P (lua_sethook L main_hook_mask) cs w)"
  by (auto simp: lua_sethook_def main_hook_mask_def ravi_debughook.simps
      run_loaded.simps [of _ _ "c # cs"])

theorem hook_ignores_call_and_return_witness:
  "event (frame0\<lparr>event := LUA_HOOKCALL\<rparr>) \<noteq> LUA_HOOKLINE \<and>
   ravi_debughook P0 (lua_sethook L1 main_hook_mask) (frame0\<lparr>event := LUA_HOOKCALL\<rparr>)
       (w_birth\<lparr>debugger_state := DEBUGGER_PROGRAM_RUNNING\<rparr>) =
     Returned (w_birth\<lparr>debugger_state := DEBUGGER_PROGRAM_RUNNING\<rparr>) \<and>
   event (hook_ar \<lparr>hook_ar = frame0\<lparr>event := LUA_HOOKRET\<rparr>, hook_stack = [frame0]\<rparr>)
     = LUA_HOOKRET \<and>
   run_loaded P0 (lua_sethook L1 main_hook_mask)
       [\<lparr>hook_ar = frame0\<lparr>event := LUA_HOOKRET\<rparr>, hook_stack = [frame0]\<rparr>]
       (w_birth\<lparr>debugger_state := DEBUGGER_PROGRAM_RUNNING\<rparr>) =
     Returned (w_birth\<lparr>debugger_state := DEBUGGER_PROGRAM_RUNNING\<rparr>)"
  using hook_ignores_call_and_return
    [of L1 "frame0\<lparr>event := LUA_HOOKCALL\<rparr>" P0
      "w_birth\<lparr>debugger_state := DEBUGGER_PROGRAM_RUNNING\<rparr>"
      "\<lparr>hook_ar = frame0\<lparr>event := LUA_HOOKRET\<rparr>, hook_stack = [frame0]\<rparr>" "[]"]
  by (simp add: run_loaded.simps [of _ _ "[]"])

subsection \<open>The variables request\<close>

text \<open>
  The loop of lines 241-250 as a fold over the names it finds, each written at
  the index \<open>x\<close>.
\<close>

lemma variables_loop_fold:
  "variables_loop P entry x n vars =
     foldl (\<lambda>vs nm. array_write vs x \<lparr>variable_name = strncpy (sizeof_variable_name P) nm\<rparr>)
       vars
       (map the (takeWhile (\<lambda>nm. nm \<noteq> None)
          (map (lua_getlocal entry) [n .. MAX_VARIABLES P - 1])))"
proof (induction P entry x n vars rule: variables_loop.induct)
  case (1 P entry x n vars)
  show ?case
  proof (cases "n < MAX_VARIABLES P")
    case True
    then have up: "[n .. MAX_VARIABLES P - 1] = n # [n + 1 .. MAX_VARIABLES P - 1]"
      by (simp add: upto_rec1)
    show ?thesis
    proof (cases "lua_getlocal entry n")
      case None
      then show ?thesis using True
        by (subst variables_loop.simps) (simp add: up)
    next
      case (Some nm)
      then show ?thesis using True "1.IH" [OF True Some]
        by (subst variables_loop.simps) (simp add: up)
    qed
  next
    case False
    then show ?thesis by (subst variables_loop.simps) simp
  qed
qed


text \<open>
  Claim C2, as stated, fails for the kinds Upvalues and Globals: a request for
  the handle 3000000 (Globals of frame 0, which exists) gets an error
  response, not a success response with an empty list.
\<close>

theorem variables_globals_rejected:
  "decode_variablesReference 3000000 = (CHR ''g'', 0) \<and>
   lua_getstack L1 0 = Some frame0 \<and>
   handle_variables_request P0 (req0\<lparr>variablesReference := 3000000\<rparr>) L1 w_birth =
     Returned (w_birth\<lparr>io := [Emit (ResponseMessage
       \<lparr>request_seq = 1, response_command = ''threads'',
        response_type = VSCODE_VARIABLES_RESPONSE, success = False,
        message = ''Error retrieving variables'', body = NoBody\<rparr>)]\<rparr>)"
  by (simp add: handle_variables_request_def decode_variablesReference_def lua_getstack_def
      vscode_make_error_response_def req0_def L1_def L0_def w_birth_def emit_def
      plain_texts_def recognised_response_def)

text \<open>
  Claim C2, amended. A variables request whose handle decodes to kind Upvalues
  or Globals gets the error response "Error retrieving variables" (line 239
  serves the kind Locals only). For kind Locals and an existing frame, the
  handler visits the local names \<open>n = 1, ..., MAX_VARIABLES - 1\<close> up to the first
  absent one, writes each into the entry of index 0, and prints a success
  response with that entry, which goes to the trace as it is when the name has
  no \<open>%\<close> (otherwise \<open>fprintf\<close> alters it or the behaviour is undefined); when the
  frame does not exist it emits the error response. Each time the response is
  all the handler prints.
\<close>

theorem variables_response:
  "(fst (decode_variablesReference (variablesReference req)) \<noteq> CHR ''l'' \<longrightarrow>
      handle_variables_request P req L w =
        Returned (w\<lparr>io := io w @ [Emit (ResponseMessage
          \<lparr>request_seq = seq req, response_command = command req,
           response_type = VSCODE_VARIABLES_RESPONSE, success = False,
           message = ''Error retrieving variables'', body = NoBody\<rparr>)]\<rparr>)) \<and>
   (decode_variablesReference (variablesReference req) = (CHR ''l'', depth) \<and>
    lua_getstack L depth = Some entry \<longrightarrow>
      (\<exists>r. r = ResponseMessage
          \<lparr>request_seq = seq req, response_command = command req,
           response_type = VSCODE_VARIABLES_RESPONSE, success = True, message = [],
           body = VariablesResponse
             (foldl (\<lambda>vs nm. array_write vs 0
                       \<lparr>variable_name = strncpy (sizeof_variable_name P) nm\<rparr>)
                [] (local_names P entry))\<rparr> \<and>
         handle_variables_request P req L w =
           (if plain_texts r then Returned (w\<lparr>io := io w @ [Emit r]\<rparr>)
            else if format_defined r then Returned (w\<lparr>io := io w @ [Garbled r]\<rparr>)
            else Undefined w))) \<and>
   (decode_variablesReference (variablesReference req) = (CHR ''l'', depth) \<and>
    lua_getstack L depth = None \<longrightarrow>
      handle_variables_request P req L w =
        Returned (w\<lparr>io := io w @ [Emit (ResponseMessage
          \<lparr>request_seq = seq req, response_command = command req,
           response_type = VSCODE_VARIABLES_RESPONSE, success = False,
           message = ''Error retrieving variables'', body = NoBody\<rparr>)]\<rparr>))"
proof -
  have pl: "plain_texts (ResponseMessage
          \<lparr>request_seq = seq req, response_command = command req,
           response_type = VSCODE_VARIABLES_RESPONSE, success = False,
           message = ''Error retrieving variables'', body = NoBody\<rparr>)"
    by (simp add: plain_texts_def recognised_response_def)
  show ?thesis
    by (auto simp: handle_variables_request_def Let_def variables_loop_fold local_names_def
        vscode_make_success_response_def vscode_make_error_response_def pl emit_def
        split: prod.splits)
qed

theorem variables_response_witness:
  "fst (decode_variablesReference (variablesReference (req0\<lparr>variablesReference := 2000000\<rparr>)))
     \<noteq> CHR ''l'' \<and>
   handle_variables_request P0 (req0\<lparr>variablesReference := 2000000\<rparr>) L1 w_birth =
     Returned (w_birth\<lparr>io := [Emit (ResponseMessage
       \<lparr>request_seq = 1, response_command = ''threads'',
        response_type = VSCODE_VARIABLES_RESPONSE, success = False,
        message = ''Error retrieving variables'', body = NoBody\<rparr>)]\<rparr>) \<and>
   decode_variablesReference (variablesReference (req0\<lparr>variablesReference := 1000000\<rparr>)) =
     (CHR ''l'', 0) \<and>
   lua_getstack L1 0 = Some frame0 \<and>
   local_names P0 frame0 = [''x''] \<and>
   handle_variables_request P0 (req0\<lparr>variablesReference := 1000000\<rparr>) L1 w_birth =
     Returned (w_birth\<lparr>io := [Emit (ResponseMessage
       \<lparr>request_seq = 1, response_command = ''threads'',
        response_type = VSCODE_VARIABLES_RESPONSE, success = True, message = [],
        body = VariablesResponse [\<lparr>variable_name = ''x''\<rparr>]\<rparr>)]\<rparr>) \<and>
   decode_variablesReference (variablesReference (req0\<lparr>variablesReference := 1000001\<rparr>)) =
     (CHR ''l'', 1) \<and>
   lua_getstack L1 1 = None \<and>
   handle_variables_request P0 (req0\<lparr>variablesReference := 1000001\<rparr>) L1 w_birth =
     Returned (w_birth\<lparr>io := [Emit (ResponseMessage
       \<lparr>request_seq = 1, response_command = ''threads'',
        response_type = VSCODE_VARIABLES_RESPONSE, success = False,
        message = ''Error retrieving variables'', body = NoBody\<rparr>)]\<rparr>)"
proof -
  have up: "[1 .. 119::int] = 1 # 2 # [3 .. 119]"
    by (simp add: upto_rec1)
  have names: "local_names P0 frame0 = [''x'']"
    by (simp add: local_names_def P0_def frame0_def lua_getlocal_def up)
  have sz: "sizeof_variable_name P0 = 256" by (simp add: P0_def)
  have gs: "lua_getstack L1 0 = Some frame0" "lua_getstack L1 1 = None"
    by (simp_all add: lua_getstack_def L1_def L0_def)
  have io0: "io w_birth = []" by (simp add: w_birth_def)
  show ?thesis
    using variables_response [of "req0\<lparr>variablesReference := 2000000\<rparr>" P0 L1 w_birth 0 frame0]
      variables_response [of "req0\<lparr>variablesReference := 1000000\<rparr>" P0 L1 w_birth 0 frame0]
      variables_response [of "req0\<lparr>variablesReference := 1000001\<rparr>" P0 L1 w_birth 1 frame0]
    by (simp add: names gs sz io0 decode_variablesReference_def req0_def array_write_def
        strncpy_def plain_texts_def recognised_response_def)
qed

text \<open>
  Claim C3, as stated, fails in both directions. The handle 3000000, which the
  scopes response for frame 0 has just emitted, gets an error response; the
  handle 1000001, which was never emitted, is accepted because frame 1 exists.
\<close>

theorem emitted_handle_rejected:
  "handle_scopes_request P0 req0 L2 w_birth = Returned w_scopes \<and>
   3000000 \<in> set (emitted_handles (io w_scopes)) \<and>
   handle_variables_request P0 (req0\<lparr>variablesReference := 3000000\<rparr>) L2 w_scopes =
     Returned (w_scopes\<lparr>io := io w_scopes @ [Emit (ResponseMessage
       \<lparr>request_seq = 1, response_command = ''threads'',
        response_type = VSCODE_VARIABLES_RESPONSE, success = False,
        message = ''Error retrieving variables'', body = NoBody\<rparr>)]\<rparr>) \<and>
   1000001 \<notin> set (emitted_handles (io w_scopes)) \<and>
   handle_variables_request P0 (req0\<lparr>variablesReference := 1000001\<rparr>) L2 w_scopes =
     Returned (w_scopes\<lparr>io := io w_scopes @ [Emit (ResponseMessage
       \<lparr>request_seq = 1, response_command = ''threads'',
        response_type = VSCODE_VARIABLES_RESPONSE, success = True, message = [],
        body = VariablesResponse [\<lparr>variable_name = ''x''\<rparr>]\<rparr>)]\<rparr>)"
proof -
  have gs: "lua_getstack L2 0 = Some frame0" "lua_getstack L2 1 = Some frame0"
    by (simp_all add: lua_getstack_def L2_def L0_def)
  have up: "[1 .. 119::int] = 1 # 2 # [3 .. 119]"
    by (simp add: upto_rec1)
  have loop: "variables_loop P0 frame0 0 1 [] = [\<lparr>variable_name = ''x''\<rparr>]"
    by (simp add: variables_loop_fold P0_def frame0_def lua_getlocal_def up array_write_def
        strncpy_def)
  have sc: "handle_scopes_request P0 req0 L2 w_birth = Returned w_scopes"
    by (simp add: handle_scopes_request_def gs req0_def frame0_def w_birth_def w_scopes_def
        emit_def plain_texts_def recognised_response_def array_write_def strncpy_def P0_def
        vscode_make_success_response_def Let_def)
  have em: "emitted_handles (io w_scopes) = [1000000, 3000000]"
    by (simp add: w_scopes_def)
  have rq: "seq req0 = 1" "command req0 = ''threads''" by (simp_all add: req0_def)
  show ?thesis
    by (simp add: sc em handle_variables_request_def decode_variablesReference_def gs loop
        vscode_make_error_response_def vscode_make_success_response_def rq emit_def
        plain_texts_def recognised_response_def)
qed

text \<open>
  Claim C3, amended. A variables request succeeds exactly when its handle lies
  in \<open>[1000000, 2000000)\<close> and \<open>handle - 1000000\<close> is the depth of an existing
  frame, whether or not the adapter has emitted the handle. Every other
  integer (0, a negative value, a value below 1000000, a Locals handle of a
  frame that does not exist, every Upvalues or Globals handle) gets an error
  response, with the message "Error retrieving variables".
\<close>

theorem variables_reference_accepted:
  "\<exists>r. handle_variables_request P req L w = emit (ResponseMessage r) w \<and>
       (success r \<longleftrightarrow>
          1000000 \<le> variablesReference req \<and> variablesReference req < 2000000 \<and>
          variablesReference req - 1000000 < int (length (stack L))) \<and>
       (\<not> success r \<longrightarrow> message r = ''Error retrieving variables'')"
proof (cases "variablesReference req < 2000000 \<and>
    lua_getstack L (variablesReference req - 1000000) \<noteq> None")
  case True
  then obtain entry where e: "lua_getstack L (variablesReference req - 1000000) = Some entry"
    by blast
  have rng: "1000000 \<le> variablesReference req \<and>
      variablesReference req - 1000000 < int (length (stack L))"
    using e by (auto simp: lua_getstack_Some_iff)
  show ?thesis
    apply (rule exI [of _ "(vscode_make_success_response req VSCODE_VARIABLES_RESPONSE)
        \<lparr>body := VariablesResponse (variables_loop P entry 0 1 [])\<rparr>"])
    using True e rng
    by (simp add: handle_variables_request_def decode_variablesReference_def Let_def
        vscode_make_success_response_def)
next
  case False
  then have nr: "\<not> (1000000 \<le> variablesReference req \<and> variablesReference req < 2000000 \<and>
          variablesReference req - 1000000 < int (length (stack L)))"
    by (auto simp: lua_getstack_None_iff)
  show ?thesis
    apply (rule exI [of _ "vscode_make_error_response req VSCODE_VARIABLES_RESPONSE
        ''Error retrieving variables''"])
    using False nr
    by (auto simp: handle_variables_request_def decode_variablesReference_def Let_def
        vscode_make_error_response_def)
qed

theorem variables_reference_accepted_witness:
  "\<exists>r. handle_variables_request P0 (req0\<lparr>variablesReference := 0\<rparr>) L1 w_birth =
         emit (ResponseMessage r) w_birth \<and>
       \<not> success r \<and> message r = ''Error retrieving variables''"
  using variables_reference_accepted [of P0 "req0\<lparr>variablesReference := 0\<rparr>" L1 w_birth]
  by (auto simp: req0_def)
subsection \<open>State legality\<close>

text \<open>
  The three handlers that walk the stack print one response, which depends on
  the request and the stack only, never on the world.
\<close>

lemma handlers_emit:
  "\<exists>r. \<forall>w. handle_stack_trace_request P req L w = emit (ResponseMessage r) w"
  "\<exists>r. \<forall>w. handle_scopes_request P req L w = emit (ResponseMessage r) w"
  "\<exists>r. \<forall>w. handle_variables_request P req L w = emit (ResponseMessage r) w"
proof -
  show "\<exists>r. \<forall>w. handle_stack_trace_request P req L w = emit (ResponseMessage r) w"
    by (cases "stack_trace_loop P L (levels req) 0 []")
      (auto simp: handle_stack_trace_request_def Let_def)
  show "\<exists>r. \<forall>w. handle_scopes_request P req L w = emit (ResponseMessage r) w"
    by (cases "lua_getstack L (frameId req)")
      (auto simp: handle_scopes_request_def Let_def)
  show "\<exists>r. \<forall>w. handle_variables_request P req L w = emit (ResponseMessage r) w"
    by (cases "decode_variablesReference (variablesReference req)";
        cases "if fst (decode_variablesReference (variablesReference req)) = CHR ''l''
               then lua_getstack L (snd (decode_variablesReference (variablesReference req)))
               else None")
      (auto simp: handle_variables_request_def Let_def)
qed

text \<open>
  Claim C1, as stated, fails: the \<open>switch\<close> of lines 355-414 does not look at the
  session state. A threads request in Birth and a stackTrace request in
  ProgramTerminated, neither of them in the legality table, both get a success
  response. A stepIn request in Birth gets a success response too, and ends the
  request loop, after which line 421 makes the session ProgramRunning.
\<close>

theorem illegal_commands_served:
  "\<not> legality_table DEBUGGER_BIRTH VSCODE_THREAD_REQUEST \<and>
   debugger_state w_birth = DEBUGGER_BIRTH \<and>
   dispatch P0 L0 VSCODE_THREAD_REQUEST req0 w_birth =
     Returned (w_birth\<lparr>io := [Emit (ResponseMessage
       \<lparr>request_seq = 1, response_command = ''threads'',
        response_type = VSCODE_THREAD_RESPONSE, success = True, message = [],
        body = ThreadResponse [\<lparr>thread_id = 1, thread_name = ''Lua Thread''\<rparr>]\<rparr>)]\<rparr>,
       True) \<and>
   \<not> legality_table DEBUGGER_PROGRAM_TERMINATED VSCODE_STACK_TRACE_REQUEST \<and>
   dispatch P0 L0 VSCODE_STACK_TRACE_REQUEST req0
       (w_birth\<lparr>debugger_state := DEBUGGER_PROGRAM_TERMINATED\<rparr>) =
     Returned (w_birth\<lparr>debugger_state := DEBUGGER_PROGRAM_TERMINATED,
       io := [Emit (ResponseMessage
         \<lparr>request_seq = 1, response_command = ''threads'',
          response_type = VSCODE_STACK_TRACE_RESPONSE, success = True, message = [],
          body = StackTraceResponse [] 0\<rparr>)]\<rparr>, True) \<and>
   \<not> legality_table DEBUGGER_BIRTH VSCODE_STEPIN_REQUEST \<and>
   debugger P0 L0 True None (w_birth\<lparr>input := [Frame VSCODE_STEPIN_REQUEST req0]\<rparr>) =
     Returned (w_birth\<lparr>debugger_state := DEBUGGER_PROGRAM_RUNNING,
       io := [Read (Frame VSCODE_STEPIN_REQUEST req0),
              Emit (ResponseMessage
                \<lparr>request_seq = 1, response_command = ''threads'',
                 response_type = VSCODE_STEPIN_RESPONSE, success = True, message = [],
                 body = NoBody\<rparr>)]\<rparr>)"
proof -
  have th: "dispatch P0 L0 VSCODE_THREAD_REQUEST req0 w_birth =
     Returned (w_birth\<lparr>io := [Emit (ResponseMessage
       \<lparr>request_seq = 1, response_command = ''threads'',
        response_type = VSCODE_THREAD_RESPONSE, success = True, message = [],
        body = ThreadResponse [\<lparr>thread_id = 1, thread_name = ''Lua Thread''\<rparr>]\<rparr>)]\<rparr>,
       True)"
    by (simp add: dispatch.simps with_get_command_def handle_thread_request_def
        vscode_make_success_response_def array_write_def strncpy_def emit_def plain_texts_def
        recognised_response_def req0_def P0_def w_birth_def)
  have st: "dispatch P0 L0 VSCODE_STACK_TRACE_REQUEST req0
       (w_birth\<lparr>debugger_state := DEBUGGER_PROGRAM_TERMINATED\<rparr>) =
     Returned (w_birth\<lparr>debugger_state := DEBUGGER_PROGRAM_TERMINATED,
       io := [Emit (ResponseMessage
         \<lparr>request_seq = 1, response_command = ''threads'',
          response_type = VSCODE_STACK_TRACE_RESPONSE, success = True, message = [],
          body = StackTraceResponse [] 0\<rparr>)]\<rparr>, True)"
    by (simp add: dispatch.simps with_get_command_def handle_stack_trace_request_def
        stack_trace_loop.simps lua_getstack_def vscode_make_success_response_def emit_def
        plain_texts_def recognised_response_def req0_def P0_def L0_def w_birth_def)
  have di: "dispatch P0 L0 VSCODE_STEPIN_REQUEST req0
       (w_birth\<lparr>input := [], io := [Read (Frame VSCODE_STEPIN_REQUEST req0)]\<rparr>) =
     Returned (w_birth\<lparr>input := [],
       io := [Read (Frame VSCODE_STEPIN_REQUEST req0),
              Emit (ResponseMessage
                \<lparr>request_seq = 1, response_command = ''threads'',
                 response_type = VSCODE_STEPIN_RESPONSE, success = True, message = [],
                 body = NoBody\<rparr>)]\<rparr>, False)"
    by (simp add: dispatch.simps with_get_command_def send_success_response_def
        vscode_make_success_response_def emit_def plain_texts_def recognised_response_def
        req0_def w_birth_def)
  have wb: "input w_birth = []" "io w_birth = []" "debugger_state w_birth = DEBUGGER_BIRTH"
    by (simp_all add: w_birth_def)
  have lp: "debugger_loop P0 L0 (w_birth\<lparr>input := [Frame VSCODE_STEPIN_REQUEST req0]\<rparr>) =
     Returned (w_birth\<lparr>input := [],
       io := [Read (Frame VSCODE_STEPIN_REQUEST req0),
              Emit (ResponseMessage
                \<lparr>request_seq = 1, response_command = ''threads'',
                 response_type = VSCODE_STEPIN_RESPONSE, success = True, message = [],
                 body = NoBody\<rparr>)]\<rparr>)"
    by (subst debugger_loop.simps) (simp add: wb di)
  have db: "debugger P0 L0 True None (w_birth\<lparr>input := [Frame VSCODE_STEPIN_REQUEST req0]\<rparr>) =
     Returned (w_birth\<lparr>debugger_state := DEBUGGER_PROGRAM_RUNNING,
       io := [Read (Frame VSCODE_STEPIN_REQUEST req0),
              Emit (ResponseMessage
                \<lparr>request_seq = 1, response_command = ''threads'',
                 response_type = VSCODE_STEPIN_RESPONSE, success = True, message = [],
                 body = NoBody\<rparr>)]\<rparr>)"
    by (subst debugger.simps) (simp add: wb lp stop_announcement_def)
  show ?thesis using th st db wb by simp
qed

text \<open>
  Claim C1, amended. Only two handlers check the state. For a (state, command)
  pair outside the legality table:
  \<^item> initialize and launch get one response with \<open>success = false\<close> ("already
    initialized", "not initialized or unexpected state"), the session state is
    kept and the loop goes on;
  \<^item> a command without a \<open>case\<close> of its own gets the error response "<command>
    not yet implemented" in every state, the session state is kept and the
    loop goes on; the response goes to the trace as it is when the command's
    text has no \<open>%\<close> (otherwise \<open>fprintf\<close> alters it or the behaviour is
    undefined);
  \<^item> threads, setExceptionBreakpoints and configurationDone get their success
    response, the session state is kept and the loop goes on;
  \<^item> disconnect (outside the table in Birth only) gets its success response
    and ends the process with exit code 0;
  \<^item> stepIn, stepOut and next get their success response and end the request
    loop: nothing more is read, and \<open>debugger\<close>, entered in a state other than
    ProgramRunning and ProgramTerminated, returns with the session in
    ProgramRunning (line 421);
  \<^item> stackTrace, scopes and variables get the response they get in a state
    where they are admissible: one response, the same in every session state,
    and the state is kept.
\<close>

theorem illegal_pairs_dispatch:
  assumes "\<not> legality_table (debugger_state w) cmd"
  shows
  "(cmd = VSCODE_INITIALIZE_REQUEST \<longrightarrow>
      dispatch P L cmd req w =
        Returned (w\<lparr>io := io w @ [Emit (ResponseMessage
          \<lparr>request_seq = seq req, response_command = command req,
           response_type = VSCODE_INITIALIZE_RESPONSE, success = False,
           message = ''already initialized'', body = NoBody\<rparr>)]\<rparr>, True)) \<and>
   (cmd = VSCODE_LAUNCH_REQUEST \<longrightarrow>
      dispatch P L cmd req w =
        Returned (w\<lparr>io := io w @ [Emit (ResponseMessage
          \<lparr>request_seq = seq req, response_command = command req,
           response_type = VSCODE_LAUNCH_RESPONSE, success = False,
           message = ''not initialized or unexpected state'', body = NoBody\<rparr>)]\<rparr>, True)) \<and>
   (\<not> implemented cmd \<longrightarrow>
      (\<exists>r. r = ResponseMessage
          \<lparr>request_seq = seq req, response_command = command req,
           response_type = cmd, success = False,
           message = snprintf 100 (command req @ '' not yet implemented''),
           body = NoBody\<rparr> \<and>
         dispatch P L cmd req w =
           (if plain_texts r then Returned (w\<lparr>io := io w @ [Emit r]\<rparr>, True)
            else if format_defined r then Returned (w\<lparr>io := io w @ [Garbled r]\<rparr>, True)
            else Undefined w))) \<and>
   (cmd = VSCODE_THREAD_REQUEST \<longrightarrow>
      dispatch P L cmd req w =
        Returned (w\<lparr>io := io w @ [Emit (ResponseMessage
          \<lparr>request_seq = seq req, response_command = command req,
           response_type = VSCODE_THREAD_RESPONSE, success = True, message = [],
           body = ThreadResponse
             [\<lparr>thread_id = 1,
               thread_name = strncpy (sizeof_thread_name P) ''Lua Thread''\<rparr>]\<rparr>)]\<rparr>, True)) \<and>
   (cmd = VSCODE_SET_EXCEPTION_BREAKPOINTS_REQUEST \<longrightarrow>
      dispatch P L cmd req w =
        Returned (w\<lparr>io := io w @ [Emit (ResponseMessage
          \<lparr>request_seq = seq req, response_command = command req,
           response_type = VSCODE_SET_EXCEPTION_BREAKPOINTS_RESPONSE, success = True,
           message = [], body = NoBody\<rparr>)]\<rparr>, True)) \<and>
   (cmd = VSCODE_CONFIGURATION_DONE_REQUEST \<longrightarrow>
      dispatch P L cmd req w =
        Returned (w\<lparr>io := io w @ [Emit (ResponseMessage
          \<lparr>request_seq = seq req, response_command = command req,
           response_type = VSCODE_CONFIGURATION_DONE_RESPONSE, success = True,
           message = [], body = NoBody\<rparr>)]\<rparr>, True)) \<and>
   (cmd = VSCODE_DISCONNECT_REQUEST \<longrightarrow>
      dispatch P L cmd req w =
        Exited 0 (w\<lparr>io := io w @ [Emit (ResponseMessage
          \<lparr>request_seq = seq req, response_command = command req,
           response_type = VSCODE_DISCONNECT_RESPONSE, success = True,
           message = [], body = NoBody\<rparr>)]\<rparr>)) \<and>
   (cmd = VSCODE_STEPIN_REQUEST \<or> cmd = VSCODE_STEPOUT_REQUEST \<or> cmd = VSCODE_NEXT_REQUEST \<longrightarrow>
      (\<exists>r. r = ResponseMessage
          \<lparr>request_seq = seq req, response_command = command req,
           response_type =
             (if cmd = VSCODE_STEPIN_REQUEST then VSCODE_STEPIN_RESPONSE
              else if cmd = VSCODE_STEPOUT_REQUEST then VSCODE_STEPOUT_RESPONSE
              else VSCODE_NEXT_RESPONSE),
           success = True, message = [], body = NoBody\<rparr> \<and>
         dispatch P L cmd req w = Returned (w\<lparr>io := io w @ [Emit r]\<rparr>, False) \<and>
         (\<forall>rest. input w = Frame cmd req # rest \<longrightarrow>
            debugger_loop P L w =
              Returned (w\<lparr>input := rest, io := io w @ [Read (Frame cmd req), Emit r]\<rparr>) \<and>
            (debugger_state w \<noteq> DEBUGGER_PROGRAM_RUNNING \<and>
             debugger_state w \<noteq> DEBUGGER_PROGRAM_TERMINATED \<longrightarrow>
               debugger P L init ar w =
                 Returned (w\<lparr>input := rest,
                   io := io w @ [Read (Frame cmd req), Emit r],
                   debugger_state := DEBUGGER_PROGRAM_RUNNING\<rparr>))))) \<and>
   (cmd = VSCODE_STACK_TRACE_REQUEST \<or> cmd = VSCODE_SCOPES_REQUEST \<or>
    cmd = VSCODE_VARIABLES_REQUEST \<longrightarrow>
      (\<exists>r. \<forall>s. dispatch P L cmd req (w\<lparr>debugger_state := s\<rparr>) =
           (if plain_texts (ResponseMessage r) then
              Returned (w\<lparr>debugger_state := s,
                          io := io w @ [Emit (ResponseMessage r)]\<rparr>, True)
            else if format_defined (ResponseMessage r) then
              Returned (w\<lparr>debugger_state := s,
                          io := io w @ [Garbled (ResponseMessage r)]\<rparr>, True)
            else Undefined (w\<lparr>debugger_state := s\<rparr>))))"
proof -
  have init: "dispatch P L cmd req w =
        Returned (w\<lparr>io := io w @ [Emit (ResponseMessage
          \<lparr>request_seq = seq req, response_command = command req,
           response_type = VSCODE_INITIALIZE_RESPONSE, success = False,
           message = ''already initialized'', body = NoBody\<rparr>)]\<rparr>, True)"
    if c: "cmd = VSCODE_INITIALIZE_REQUEST"
  proof -
    have "debugger_state w \<noteq> DEBUGGER_BIRTH"
      using assms c by (cases "debugger_state w") simp_all
    then have "state_value (debugger_state w) \<ge> 2"
      by (cases "debugger_state w") simp_all
    then show ?thesis using c
      by (simp add: dispatch.simps with_get_command_def handle_initialize_request_def
          send_error_response_def vscode_make_error_response_def emit_def plain_texts_def
          recognised_response_def)
  qed
  have launch: "dispatch P L cmd req w =
        Returned (w\<lparr>io := io w @ [Emit (ResponseMessage
          \<lparr>request_seq = seq req, response_command = command req,
           response_type = VSCODE_LAUNCH_RESPONSE, success = False,
           message = ''not initialized or unexpected state'', body = NoBody\<rparr>)]\<rparr>, True)"
    if c: "cmd = VSCODE_LAUNCH_REQUEST"
  proof -
    have "debugger_state w \<noteq> DEBUGGER_INITIALIZED"
      using assms c by (cases "debugger_state w") simp_all
    then show ?thesis using c
      by (simp add: dispatch.simps handle_launch_request.simps send_error_response_def
          vscode_make_error_response_def emit_def plain_texts_def recognised_response_def)
  qed
  have other: "dispatch P L cmd req w =
           (if plain_texts r then Returned (w\<lparr>io := io w @ [Emit r]\<rparr>, True)
            else if format_defined r then Returned (w\<lparr>io := io w @ [Garbled r]\<rparr>, True)
            else Undefined w)"
    if c: "\<not> implemented cmd" and r: "r = ResponseMessage
          \<lparr>request_seq = seq req, response_command = command req,
           response_type = cmd, success = False,
           message = snprintf 100 (command req @ '' not yet implemented''),
           body = NoBody\<rparr>" for r
    using c unfolding r
    by (cases cmd)
      (simp_all add: implemented_def dispatch.simps with_get_command_def
        send_error_response_def vscode_make_error_response_def emit_def)
  have served: "dispatch P L VSCODE_THREAD_REQUEST req w =
        Returned (w\<lparr>io := io w @ [Emit (ResponseMessage
          \<lparr>request_seq = seq req, response_command = command req,
           response_type = VSCODE_THREAD_RESPONSE, success = True, message = [],
           body = ThreadResponse
             [\<lparr>thread_id = 1,
               thread_name = strncpy (sizeof_thread_name P) ''Lua Thread''\<rparr>]\<rparr>)]\<rparr>, True)"
    "dispatch P L VSCODE_SET_EXCEPTION_BREAKPOINTS_REQUEST req w =
        Returned (w\<lparr>io := io w @ [Emit (ResponseMessage
          \<lparr>request_seq = seq req, response_command = command req,
           response_type = VSCODE_SET_EXCEPTION_BREAKPOINTS_RESPONSE, success = True,
           message = [], body = NoBody\<rparr>)]\<rparr>, True)"
    "dispatch P L VSCODE_CONFIGURATION_DONE_REQUEST req w =
        Returned (w\<lparr>io := io w @ [Emit (ResponseMessage
          \<lparr>request_seq = seq req, response_command = command req,
           response_type = VSCODE_CONFIGURATION_DONE_RESPONSE, success = True,
           message = [], body = NoBody\<rparr>)]\<rparr>, True)"
    "dispatch P L VSCODE_DISCONNECT_REQUEST req w =
        Exited 0 (w\<lparr>io := io w @ [Emit (ResponseMessage
          \<lparr>request_seq = seq req, response_command = command req,
           response_type = VSCODE_DISCONNECT_RESPONSE, success = True,
           message = [], body = NoBody\<rparr>)]\<rparr>)"
    by (simp_all add: dispatch.simps with_get_command_def handle_thread_request_def
        send_success_response_def vscode_make_success_response_def array_write_def emit_def
        plain_texts_def recognised_response_def plain_strncpy)
  have step: "dispatch P L cmd req w = Returned (w\<lparr>io := io w @ [Emit r]\<rparr>, False) \<and>
         (\<forall>rest. input w = Frame cmd req # rest \<longrightarrow>
            debugger_loop P L w =
              Returned (w\<lparr>input := rest, io := io w @ [Read (Frame cmd req), Emit r]\<rparr>) \<and>
            (debugger_state w \<noteq> DEBUGGER_PROGRAM_RUNNING \<and>
             debugger_state w \<noteq> DEBUGGER_PROGRAM_TERMINATED \<longrightarrow>
               debugger P L init ar w =
                 Returned (w\<lparr>input := rest,
                   io := io w @ [Read (Frame cmd req), Emit r],
                   debugger_state := DEBUGGER_PROGRAM_RUNNING\<rparr>)))"
    if c: "cmd = VSCODE_STEPIN_REQUEST \<or> cmd = VSCODE_STEPOUT_REQUEST \<or>
        cmd = VSCODE_NEXT_REQUEST"
      and r: "r = ResponseMessage
          \<lparr>request_seq = seq req, response_command = command req,
           response_type =
             (if cmd = VSCODE_STEPIN_REQUEST then VSCODE_STEPIN_RESPONSE
              else if cmd = VSCODE_STEPOUT_REQUEST then VSCODE_STEPOUT_RESPONSE
              else VSCODE_NEXT_RESPONSE),
           success = True, message = [], body = NoBody\<rparr>" for r
  proof -
    have d: "dispatch P L cmd req v = Returned (v\<lparr>io := io v @ [Emit r]\<rparr>, False)" for v
      using c unfolding r
      by (auto simp: dispatch.simps with_get_command_def send_success_response_def
          vscode_make_success_response_def emit_def plain_texts_def recognised_response_def)
    have l: "debugger_loop P L w =
        Returned (w\<lparr>input := rest, io := io w @ [Read (Frame cmd req), Emit r]\<rparr>)"
      if i: "input w = Frame cmd req # rest" for rest
      by (subst debugger_loop.simps) (simp add: i d)
    have g: "debugger P L init ar w =
        Returned (w\<lparr>input := rest, io := io w @ [Read (Frame cmd req), Emit r],
          debugger_state := DEBUGGER_PROGRAM_RUNNING\<rparr>)"
      if i: "input w = Frame cmd req # rest"
        and s: "debugger_state w \<noteq> DEBUGGER_PROGRAM_RUNNING"
          "debugger_state w \<noteq> DEBUGGER_PROGRAM_TERMINATED" for rest
      by (subst debugger.simps) (simp add: s stop_announcement_def l [OF i])
    show ?thesis using d l g by blast
  qed
  have walk: "\<exists>r. \<forall>s. dispatch P L cmd req (w\<lparr>debugger_state := s\<rparr>) =
           (if plain_texts (ResponseMessage r) then
              Returned (w\<lparr>debugger_state := s,
                          io := io w @ [Emit (ResponseMessage r)]\<rparr>, True)
            else if format_defined (ResponseMessage r) then
              Returned (w\<lparr>debugger_state := s,
                          io := io w @ [Garbled (ResponseMessage r)]\<rparr>, True)
            else Undefined (w\<lparr>debugger_state := s\<rparr>))"
    if c: "cmd = VSCODE_STACK_TRACE_REQUEST \<or> cmd = VSCODE_SCOPES_REQUEST \<or>
        cmd = VSCODE_VARIABLES_REQUEST"
  proof -
    obtain r where r: "\<And>v. dispatch P L cmd req v =
        with_get_command True (emit (ResponseMessage r) v)"
      using c handlers_emit [of P req L] by (auto simp: dispatch.simps)
    show ?thesis
      by (rule exI [of _ r]) (simp add: r with_get_command_def emit_def)
  qed
  show ?thesis
    apply (intro conjI impI)
    subgoal by (rule init)
    subgoal by (rule launch)
    subgoal using other by blast
    subgoal by (simp add: served)
    subgoal by (simp add: served)
    subgoal by (simp add: served)
    subgoal by (simp add: served)
    subgoal using step by blast
    subgoal by (rule walk)
    done
qed

theorem illegal_pairs_dispatch_witness:
  "\<not> legality_table (debugger_state w_birth) VSCODE_LAUNCH_REQUEST \<and>
   dispatch P0 L0 VSCODE_LAUNCH_REQUEST req0 w_birth =
     Returned (w_birth\<lparr>io := [Emit (ResponseMessage
       \<lparr>request_seq = 1, response_command = ''threads'',
        response_type = VSCODE_LAUNCH_RESPONSE, success = False,
        message = ''not initialized or unexpected state'', body = NoBody\<rparr>)]\<rparr>, True) \<and>
   \<not> implemented (VSCODE_OTHER 99) \<and>
   dispatch P0 L0 (VSCODE_OTHER 99) req0 w_birth =
     Returned (w_birth\<lparr>io := [Emit (ResponseMessage
       \<lparr>request_seq = 1, response_command = ''threads'',
        response_type = VSCODE_OTHER 99, success = False,
        message = ''threads not yet implemented'', body = NoBody\<rparr>)]\<rparr>, True) \<and>
   input (w_birth\<lparr>input := [Frame VSCODE_NEXT_REQUEST req0]\<rparr>) =
     [Frame VSCODE_NEXT_REQUEST req0] \<and>
   debugger P0 L0 True None (w_birth\<lparr>input := [Frame VSCODE_NEXT_REQUEST req0]\<rparr>) =
     Returned (w_birth\<lparr>debugger_state := DEBUGGER_PROGRAM_RUNNING,
       io := [Read (Frame VSCODE_NEXT_REQUEST req0),
              Emit (ResponseMessage
                \<lparr>request_seq = 1, response_command = ''threads'',
                 response_type = VSCODE_NEXT_RESPONSE, success = True, message = [],
                 body = NoBody\<rparr>)]\<rparr>)"
proof -
  have wb: "debugger_state w_birth = DEBUGGER_BIRTH" "io w_birth = []" "input w_birth = []"
    by (simp_all add: w_birth_def)
  have rq: "seq req0 = 1" "command req0 = ''threads''" by (simp_all add: req0_def)
  have a: "\<not> legality_table (debugger_state w_birth) c" if "c \<noteq> VSCODE_INITIALIZE_REQUEST" for c
    using that by (simp add: wb)
  have eq: "w_birth\<lparr>input := [Frame VSCODE_NEXT_REQUEST req0], input := [],
        io := [Read (Frame VSCODE_NEXT_REQUEST req0), e],
        debugger_state := DEBUGGER_PROGRAM_RUNNING\<rparr> =
      w_birth\<lparr>debugger_state := DEBUGGER_PROGRAM_RUNNING,
        io := [Read (Frame VSCODE_NEXT_REQUEST req0), e]\<rparr>" for e
    by (simp add: w_birth_def)
  show ?thesis
    using illegal_pairs_dispatch [of w_birth VSCODE_LAUNCH_REQUEST P0 L0 req0]
      illegal_pairs_dispatch [of w_birth "VSCODE_OTHER 99" P0 L0 req0]
      illegal_pairs_dispatch [of "w_birth\<lparr>input := [Frame VSCODE_NEXT_REQUEST req0]\<rparr>"
        VSCODE_NEXT_REQUEST P0 L0 req0 True None]
    by (simp add: wb rq eq implemented_def snprintf_def plain_texts_def
        recognised_response_def)
qed

subsection \<open>Whole sessions\<close>

text \<open>
  The six functions are total, so a relation between worlds that is kept by
  every elementary step holds between the world a function of the adapter
  starts in and the world it ends in.
\<close>

lemma session_preserves:
  fixes R :: "world \<Rightarrow> world \<Rightarrow> bool"
  assumes rfl: "\<And>w. R w w"
    and trn: "\<And>a b c. R a b \<Longrightarrow> R b c \<Longrightarrow> R a c"
    and emt: "\<And>m w. \<not> is_stop_message m \<Longrightarrow> R w (final_world (emit m w))"
    and stt: "\<And>s w. R w (w\<lparr>debugger_state := s\<rparr>)"
    and rd: "\<And>item rest w. input w = item # rest \<Longrightarrow>
          R w (w\<lparr>input := rest, io := io w @ [Read item]\<rparr>)"
    and stp: "\<And>w. R w (final_world (stop_announcement w))"
  shows "R w (final_world (debugger P L init ar w))"
    and "R w (final_world (debugger_loop P L w))"
    and "R w (final_world (run_loaded P L calls w))"
proof -
  have dom: "debugger_debugger_loop_dispatch_handle_launch_request_run_loaded_ravi_debughook_dom x"
    for x using session_dom by simp
  show "R w (final_world (debugger P L init ar w))"
    by (rule session_preserves_dom(1) [where R = R]) (fact rfl trn emt stt rd stp dom)+
  show "R w (final_world (debugger_loop P L w))"
    by (rule session_preserves_dom(2) [where R = R]) (fact rfl trn emt stt rd stp dom)+
  show "R w (final_world (run_loaded P L calls w))"
    by (rule session_preserves_dom(5) [where R = R]) (fact rfl trn emt stt rd stp dom)+
qed

lemma stop_events_simps [simp]:
  "stop_events [] = []"
  "stop_events (xs @ ys) = stop_events xs @ stop_events ys"
  "stop_events (e # es) = stop_event_of e @ stop_events es"
  by (simp_all add: stop_events_def)

lemma stop_event_of_message_other:
  "\<not> is_stop_message m \<Longrightarrow> stop_event_of_message m = []"
  by (cases m rule: is_stop_message.cases) simp_all

lemma stop_events_emit:
  "\<not> is_stop_message m \<Longrightarrow>
     stop_events (io (final_world (emit m w))) = stop_events (io w)"
  by (simp add: emit_def stop_event_of_message_other)

lemma sent_emit [simp]: "thread_event_sent (final_world (emit m w)) = thread_event_sent w"
  by (simp add: emit_def)

text \<open>The announcement of a stop (lines 304-318) prints fixed texts only.\<close>

lemma stop_announcement_result:
  "stop_announcement w =
     Returned
       (if debugger_state w = DEBUGGER_PROGRAM_RUNNING then
          (if thread_event_sent w = 0 then
             w\<lparr>thread_event_sent := 1,
               io := io w @ [Emit (EventMessage (ThreadEvent True)),
                             Emit (EventMessage (StoppedEvent ''entry''))],
               debugger_state := DEBUGGER_PROGRAM_STOPPED\<rparr>
           else
             w\<lparr>io := io w @ [Emit (EventMessage (StoppedEvent ''step''))],
               debugger_state := DEBUGGER_PROGRAM_STOPPED\<rparr>)
        else w)"
  by (simp add: stop_announcement_def send_thread_event_def send_stopped_event_def emit_def
      plain_texts_def)

text \<open>The trace only grows.\<close>

lemma io_grows:
  "\<exists>xs. io (final_world (debugger_loop P L w)) = io w @ xs"
  "\<exists>xs. io (final_world (run_loaded P L calls w)) = io w @ xs"
proof -
  define R where "R = (\<lambda>(a::world) (b::world). \<exists>xs. io b = io a @ xs)"
  have rfl: "R w w" for w by (simp add: R_def)
  have trn: "R a b \<Longrightarrow> R b c \<Longrightarrow> R a c" for a b c by (auto simp: R_def)
  have emt: "\<not> is_stop_message m \<Longrightarrow> R w (final_world (emit m w))" for m w
    by (simp add: R_def emit_def)
  have stt: "R w (w\<lparr>debugger_state := s\<rparr>)" for s w by (simp add: R_def)
  have rd: "input w = item # rest \<Longrightarrow> R w (w\<lparr>input := rest, io := io w @ [Read item]\<rparr>)"
    for item rest w by (simp add: R_def)
  have stp: "R w (final_world (stop_announcement w))" for w
    by (simp add: R_def stop_announcement_result)
  have "R w (final_world (debugger_loop P L w))"
    by (rule session_preserves(2) [where R = R]) (fact rfl trn emt stt rd stp)+
  then show "\<exists>xs. io (final_world (debugger_loop P L w)) = io w @ xs"
    by (simp add: R_def)
  have "R w (final_world (run_loaded P L calls w))"
    by (rule session_preserves(3) [where R = R]) (fact rfl trn emt stt rd stp)+
  then show "\<exists>xs. io (final_world (run_loaded P L calls w)) = io w @ xs"
    by (simp add: R_def)
qed

text \<open>The first-stop contract holds along every call of \<open>debugger\<close>.\<close>

lemma replicate_snoc_self:
  "rest = replicate (length rest) x \<Longrightarrow> rest @ [x] = x # rest"
  by (metis replicate_append_same)

lemma first_stop_contract_step:
  "first_stop_contract es \<Longrightarrow> es \<noteq> [] \<Longrightarrow> first_stop_contract (es @ [StoppedEvent ''step''])"
  by (cases es rule: first_stop_contract.cases) (auto simp: replicate_snoc_self)

lemma stop_invariant_kept:
  "stop_invariant w \<Longrightarrow> stop_invariant (final_world (debugger P L init ar w))"
proof -
  define R where "R = (\<lambda>(a::world) (b::world). stop_invariant a \<longrightarrow> stop_invariant b)"
  have rfl: "R w w" for w by (simp add: R_def)
  have trn: "R a b \<Longrightarrow> R b c \<Longrightarrow> R a c" for a b c by (auto simp: R_def)
  have emt: "\<not> is_stop_message m \<Longrightarrow> R w (final_world (emit m w))" for m w
    by (simp add: R_def stop_invariant_def stop_events_emit)
  have stt: "R w (w\<lparr>debugger_state := s\<rparr>)" for s w by (simp add: R_def stop_invariant_def)
  have rd: "input w = item # rest \<Longrightarrow> R w (w\<lparr>input := rest, io := io w @ [Read item]\<rparr>)"
    for item rest w by (simp add: R_def stop_invariant_def)
  have stp: "R w (final_world (stop_announcement w))" for w
    by (auto simp: R_def stop_invariant_def stop_announcement_result first_stop_contract_step)
  have "R w (final_world (debugger P L init ar w))"
    by (rule session_preserves(1) [where R = R]) (fact rfl trn emt stt rd stp)+
  then show "stop_invariant w \<Longrightarrow> stop_invariant (final_world (debugger P L init ar w))"
    by (simp add: R_def)
qed

text \<open>
  Once the session has left Birth and Initialized, the request loop neither
  changes the session state nor emits a thread or stopped event: initialize and
  launch are rejected, and no other handler touches the state.
\<close>

lemma state_handlers:
  "debugger_state (final_world (send_error_response req t s w)) = debugger_state w"
  "debugger_state (final_world (send_success_response req t w)) = debugger_state w"
  "debugger_state (final_world (handle_thread_request P req w)) = debugger_state w"
  "debugger_state (final_world (handle_stack_trace_request P req L w)) = debugger_state w"
  "debugger_state (final_world (handle_scopes_request P req L w)) = debugger_state w"
  "debugger_state (final_world (handle_variables_request P req L w)) = debugger_state w"
  by (simp_all add: send_error_response_def send_success_response_def
      handle_thread_request_def handle_stack_trace_request_def handle_scopes_request_def
      handle_variables_request_def Let_def split: prod.splits option.splits)

lemma dispatch_serving:
  assumes "debugger_state w \<noteq> DEBUGGER_BIRTH" and "debugger_state w \<noteq> DEBUGGER_INITIALIZED"
  shows "debugger_state (final_world2 (dispatch P L cmd req w)) = debugger_state w \<and>
         stop_events (io (final_world2 (dispatch P L cmd req w))) = stop_events (io w)"
proof -
  define R where "R = (\<lambda>(a::world) (b::world). stop_events (io b) = stop_events (io a))"
  have rfl: "R w w" for w by (simp add: R_def)
  have trn: "R a b \<Longrightarrow> R b c \<Longrightarrow> R a c" for a b c by (auto simp: R_def)
  have emt: "\<not> is_stop_message m \<Longrightarrow> R w (final_world (emit m w))" for m w
    by (simp add: R_def stop_events_emit)
  have stt: "R w (w\<lparr>debugger_state := s\<rparr>)" for s w by (simp add: R_def)
  note hs = handlers_step [where R = R, OF rfl trn emt stt, unfolded R_def]
  have ge: "state_value (debugger_state w) \<ge> 2"
    using assms(1) by (cases "debugger_state w") simp_all
  have ini: "handle_initialize_request req w =
      send_error_response req VSCODE_INITIALIZE_RESPONSE ''already initialized'' w"
    using ge by (simp add: handle_initialize_request_def)
  have lau: "handle_launch_request P req L w =
      send_error_response req VSCODE_LAUNCH_RESPONSE
        ''not initialized or unexpected state'' w"
    using assms(2) by (simp add: handle_launch_request.simps)
  have fw: "final_world2 (case r of Exited c w1 \<Rightarrow> Exited c w1 | Undefined w1 \<Rightarrow> Undefined w1
      | Returned w1 \<Rightarrow> Returned (w1, True)) = final_world r" for r
    by (cases r) simp_all
  show ?thesis
    by (cases cmd) (simp_all add: dispatch.simps ini lau fw hs state_handlers)
qed

text \<open>
  The induction follows the joint recursion of the six functions; only the
  statement about the loop has content.
\<close>

lemma loop_serving_aux:
  "debugger Pa La init ar wa = debugger Pa La init ar wa"
  "debugger_state wb \<noteq> DEBUGGER_BIRTH \<and> debugger_state wb \<noteq> DEBUGGER_INITIALIZED \<longrightarrow>
     debugger_state (final_world (debugger_loop Pb Lb wb)) = debugger_state wb \<and>
     stop_events (io (final_world (debugger_loop Pb Lb wb))) = stop_events (io wb)"
  "dispatch Pc Lc cmd reqc wc = dispatch Pc Lc cmd reqc wc"
  "handle_launch_request Pd reqd Ld wd = handle_launch_request Pd reqd Ld wd"
  "run_loaded Pe Le calls we = run_loaded Pe Le calls we"
  "ravi_debughook Pg Lg arg wg = ravi_debughook Pg Lg arg wg"
proof (induct Pa La init ar wa and Pb Lb wb and Pc Lc cmd reqc wc and Pd reqd Ld wd
    and Pe Le calls we and Pg Lg arg wg
    rule: debugger_debugger_loop_dispatch_handle_launch_request_run_loaded_ravi_debughook.induct)
  case (2 P L w)
  show ?case
  proof (intro impI)
    assume st: "debugger_state w \<noteq> DEBUGGER_BIRTH \<and> debugger_state w \<noteq> DEBUGGER_INITIALIZED"
    show "debugger_state (final_world (debugger_loop P L w)) = debugger_state w \<and>
       stop_events (io (final_world (debugger_loop P L w))) = stop_events (io w)"
    proof (cases "input w")
      case Nil
      then show ?thesis by (simp add: debugger_loop.simps [of P L w])
    next
      case (Cons item rest)
      define w1 where "w1 = w\<lparr>input := rest, io := io w @ [Read item]\<rparr>"
      have s1: "debugger_state w1 = debugger_state w" "stop_events (io w1) = stop_events (io w)"
        by (simp_all add: w1_def)
      show ?thesis
      proof (cases item)
        case Unexpected
        have ih: "debugger_state (final_world (debugger_loop P L w1)) = debugger_state w1 \<and>
            stop_events (io (final_world (debugger_loop P L w1))) = stop_events (io w1)"
          using "2.hyps"(1) [OF Cons w1_def Unexpected] st s1 by simp
        have unf: "debugger_loop P L w = debugger_loop P L w1"
          using Cons Unexpected by (simp add: debugger_loop.simps [of P L w] w1_def)
        show ?thesis using ih s1 unfolding unf by simp
      next
        case TooLong
        then show ?thesis using Cons by (simp add: debugger_loop.simps [of P L w])
      next
        case HeaderThenEnd
        then show ?thesis using Cons by (simp add: debugger_loop.simps [of P L w])
      next
        case ShortBody
        then show ?thesis using Cons by (simp add: debugger_loop.simps [of P L w])
      next
        case (Frame cmd req)
        have d: "debugger_state (final_world2 (dispatch P L cmd req w1)) = debugger_state w1 \<and>
            stop_events (io (final_world2 (dispatch P L cmd req w1))) = stop_events (io w1)"
          using dispatch_serving [of w1 P L cmd req] st s1 by simp
        have unf: "debugger_loop P L w =
            (case dispatch P L cmd req w1 of
               Exited c w2 \<Rightarrow> Exited c w2
             | Undefined w2 \<Rightarrow> Undefined w2
             | Returned (w2, get_command) \<Rightarrow>
                 if get_command then debugger_loop P L w2 else Returned w2)"
          using Cons Frame by (simp add: debugger_loop.simps [of P L w] w1_def)
        show ?thesis
        proof (cases "dispatch P L cmd req w1")
          case (Exited c w2)
          then show ?thesis using d s1 unfolding unf by simp
        next
          case (Undefined w2)
          then show ?thesis using d s1 unfolding unf by simp
        next
          case (Returned x2)
          obtain w2 g where x2: "x2 = (w2, g)" by (cases x2)
          have s2: "debugger_state w2 = debugger_state w"
            "stop_events (io w2) = stop_events (io w)"
            using d s1 Returned x2 by simp_all
          show ?thesis
          proof (cases g)
            case True
            have "debugger_state (final_world (debugger_loop P L w2)) = debugger_state w2 \<and>
                stop_events (io (final_world (debugger_loop P L w2))) = stop_events (io w2)"
              using "2.hyps"(3) [OF Cons w1_def Frame Returned x2 [symmetric] True] st s2
              by simp
            then show ?thesis using s2 Returned x2 True unfolding unf by simp
          next
            case False
            then show ?thesis using s2 Returned x2 unfolding unf by simp
          qed
        qed
      qed
    qed
  qed
qed simp_all

lemma loop_serving:
  assumes "debugger_state w \<noteq> DEBUGGER_BIRTH" and "debugger_state w \<noteq> DEBUGGER_INITIALIZED"
  shows "debugger_state (final_world (debugger_loop P L w)) = debugger_state w"
    and "stop_events (io (final_world (debugger_loop P L w))) = stop_events (io w)"
  using loop_serving_aux(2) [of w P L] assms by simp_all

subsection \<open>The launch request\<close>

text \<open>
  What a launch request does in state Initialized (in any other state line 262
  rejects it before anything is loaded). If loading the program fails, the
  adapter prints an output event with the load diagnostic, then an error
  response with message "Launch failed", and the session state stays
  Initialized. If loading succeeds, it prints a success response, moves to
  ProgramRunning and runs the program from there; whatever the run prints comes
  after the success response. When the run returns, with or without an error,
  the adapter prints the terminated event last (after two output events when
  there was an error) and moves to ProgramTerminated; when the run ends the
  process, so does the launch. All this holds as long as the program's name,
  the load diagnostic and the error message of the run hold no \<open>%\<close>: these
  three texts are printed through \<open>fprintf (out, buf)\<close>, which alters the output
  event when every \<open>%\<close> of the text is part of a \<open>%%\<close>, and has no defined
  behaviour otherwise.
\<close>

lemma launch_outcome:
  assumes "debugger_state w = DEBUGGER_INITIALIZED"
  shows
   "(luaL_loadfile L (program req) = Inl err \<longrightarrow>
       (\<exists>t. t = snprintf 1024 (''Failed to launch '' @ program req @ '' due to error: '' @ err) \<and>
          handle_launch_request P req L w =
            (if CHR ''%'' \<notin> set t then
               Returned (w\<lparr>io := io w @
                 [Emit (EventMessage (OutputEvent t)),
                  Emit (ResponseMessage
                    \<lparr>request_seq = seq req, response_command = command req,
                     response_type = VSCODE_LAUNCH_RESPONSE, success = False,
                     message = ''Launch failed'', body = NoBody\<rparr>)]\<rparr>)
             else if format_ok t then
               Returned (w\<lparr>io := io w @
                 [Garbled (EventMessage (OutputEvent t)),
                  Emit (ResponseMessage
                    \<lparr>request_seq = seq req, response_command = command req,
                     response_type = VSCODE_LAUNCH_RESPONSE, success = False,
                     message = ''Launch failed'', body = NoBody\<rparr>)]\<rparr>)
             else Undefined w))) \<and>
    (luaL_loadfile L (program req) = Inr loaded \<longrightarrow>
       (\<exists>rest.
          io (final_world (run_loaded P L (chunk_events loaded)
               (w\<lparr>debugger_state := DEBUGGER_PROGRAM_RUNNING,
                   io := io w @
                     [Emit (ResponseMessage
                        \<lparr>request_seq = seq req, response_command = command req,
                         response_type = VSCODE_LAUNCH_RESPONSE, success = True,
                         message = [], body = NoBody\<rparr>)]\<rparr>))) =
            io w @
            [Emit (ResponseMessage
               \<lparr>request_seq = seq req, response_command = command req,
                response_type = VSCODE_LAUNCH_RESPONSE, success = True,
                message = [], body = NoBody\<rparr>)] @ rest) \<and>
       handle_launch_request P req L w =
         (case run_loaded P L (chunk_events loaded)
                 (w\<lparr>debugger_state := DEBUGGER_PROGRAM_RUNNING,
                     io := io w @
                       [Emit (ResponseMessage
                          \<lparr>request_seq = seq req, response_command = command req,
                           response_type = VSCODE_LAUNCH_RESPONSE, success = True,
                           message = [], body = NoBody\<rparr>)]\<rparr>) of
            Exited c w3 \<Rightarrow> Exited c w3
          | Undefined w3 \<Rightarrow> Undefined w3
          | Returned w3 \<Rightarrow>
              (case chunk_error loaded of
                 None \<Rightarrow>
                   Returned (w3\<lparr>debugger_state := DEBUGGER_PROGRAM_TERMINATED,
                     io := io w3 @ [Emit (EventMessage TerminatedEvent)]\<rparr>)
               | Some m \<Rightarrow>
                   if CHR ''%'' \<notin> set m then
                     Returned (w3\<lparr>debugger_state := DEBUGGER_PROGRAM_TERMINATED,
                       io := io w3 @
                         [Emit (EventMessage (OutputEvent ''Program terminated with error'')),
                          Emit (EventMessage (OutputEvent m)),
                          Emit (EventMessage TerminatedEvent)]\<rparr>)
                   else if format_ok m then
                     Returned (w3\<lparr>debugger_state := DEBUGGER_PROGRAM_TERMINATED,
                       io := io w3 @
                         [Emit (EventMessage (OutputEvent ''Program terminated with error'')),
                          Garbled (EventMessage (OutputEvent m)),
                          Emit (EventMessage TerminatedEvent)]\<rparr>)
                   else
                     Undefined (w3\<lparr>io := io w3 @
                         [Emit (EventMessage
                            (OutputEvent ''Program terminated with error''))]\<rparr>))))"
proof (intro conjI impI)
  assume "luaL_loadfile L (program req) = Inl err"
  then show "\<exists>t. t = snprintf 1024 (''Failed to launch '' @ program req @ '' due to error: '' @ err) \<and>
          handle_launch_request P req L w =
            (if CHR ''%'' \<notin> set t then
               Returned (w\<lparr>io := io w @
                 [Emit (EventMessage (OutputEvent t)),
                  Emit (ResponseMessage
                    \<lparr>request_seq = seq req, response_command = command req,
                     response_type = VSCODE_LAUNCH_RESPONSE, success = False,
                     message = ''Launch failed'', body = NoBody\<rparr>)]\<rparr>)
             else if format_ok t then
               Returned (w\<lparr>io := io w @
                 [Garbled (EventMessage (OutputEvent t)),
                  Emit (ResponseMessage
                    \<lparr>request_seq = seq req, response_command = command req,
                     response_type = VSCODE_LAUNCH_RESPONSE, success = False,
                     message = ''Launch failed'', body = NoBody\<rparr>)]\<rparr>)
             else Undefined w)"
    using assms
    by (simp add: handle_launch_request.simps [of P req L w] Let_def send_output_event_def
        send_error_response_def emit_def plain_texts_def format_defined_def
        recognised_response_def vscode_make_error_response_def)
next
  define w2 where "w2 = w\<lparr>debugger_state := DEBUGGER_PROGRAM_RUNNING,
      io := io w @
        [Emit (ResponseMessage
           \<lparr>request_seq = seq req, response_command = command req,
            response_type = VSCODE_LAUNCH_RESPONSE, success = True,
            message = [], body = NoBody\<rparr>)]\<rparr>"
  assume ld: "luaL_loadfile L (program req) = Inr loaded"
  obtain rest where "io (final_world (run_loaded P L (chunk_events loaded) w2)) = io w2 @ rest"
    using io_grows(2) [of P L "chunk_events loaded" w2] by blast
  then show "\<exists>rest.
          io (final_world (run_loaded P L (chunk_events loaded)
               (w\<lparr>debugger_state := DEBUGGER_PROGRAM_RUNNING,
                   io := io w @
                     [Emit (ResponseMessage
                        \<lparr>request_seq = seq req, response_command = command req,
                         response_type = VSCODE_LAUNCH_RESPONSE, success = True,
                         message = [], body = NoBody\<rparr>)]\<rparr>))) =
            io w @
            [Emit (ResponseMessage
               \<lparr>request_seq = seq req, response_command = command req,
                response_type = VSCODE_LAUNCH_RESPONSE, success = True,
                message = [], body = NoBody\<rparr>)] @ rest"
    unfolding w2_def by auto
  have start: "send_success_response req VSCODE_LAUNCH_RESPONSE w =
      Returned (w\<lparr>io := io w @
        [Emit (ResponseMessage
           \<lparr>request_seq = seq req, response_command = command req,
            response_type = VSCODE_LAUNCH_RESPONSE, success = True,
            message = [], body = NoBody\<rparr>)]\<rparr>)"
    by (simp add: send_success_response_def emit_def plain_texts_def recognised_response_def
        vscode_make_success_response_def)
  have w2': "w\<lparr>io := io w @
        [Emit (ResponseMessage
           \<lparr>request_seq = seq req, response_command = command req,
            response_type = VSCODE_LAUNCH_RESPONSE, success = True,
            message = [], body = NoBody\<rparr>)], debugger_state := DEBUGGER_PROGRAM_RUNNING\<rparr> = w2"
    by (simp add: w2_def)
  show "handle_launch_request P req L w =
         (case run_loaded P L (chunk_events loaded)
                 (w\<lparr>debugger_state := DEBUGGER_PROGRAM_RUNNING,
                     io := io w @
                       [Emit (ResponseMessage
                          \<lparr>request_seq = seq req, response_command = command req,
                           response_type = VSCODE_LAUNCH_RESPONSE, success = True,
                           message = [], body = NoBody\<rparr>)]\<rparr>) of
            Exited c w3 \<Rightarrow> Exited c w3
          | Undefined w3 \<Rightarrow> Undefined w3
          | Returned w3 \<Rightarrow>
              (case chunk_error loaded of
                 None \<Rightarrow>
                   Returned (w3\<lparr>debugger_state := DEBUGGER_PROGRAM_TERMINATED,
                     io := io w3 @ [Emit (EventMessage TerminatedEvent)]\<rparr>)
               | Some m \<Rightarrow>
                   if CHR ''%'' \<notin> set m then
                     Returned (w3\<lparr>debugger_state := DEBUGGER_PROGRAM_TERMINATED,
                       io := io w3 @
                         [Emit (EventMessage (OutputEvent ''Program terminated with error'')),
                          Emit (EventMessage (OutputEvent m)),
                          Emit (EventMessage TerminatedEvent)]\<rparr>)
                   else if format_ok m then
                     Returned (w3\<lparr>debugger_state := DEBUGGER_PROGRAM_TERMINATED,
                       io := io w3 @
                         [Emit (EventMessage (OutputEvent ''Program terminated with error'')),
                          Garbled (EventMessage (OutputEvent m)),
                          Emit (EventMessage TerminatedEvent)]\<rparr>)
                   else
                     Undefined (w3\<lparr>io := io w3 @
                         [Emit (EventMessage
                            (OutputEvent ''Program terminated with error''))]\<rparr>)))"
    unfolding w2_def [symmetric]
    using assms ld
    by (cases "run_loaded P L (chunk_events loaded) w2")
      (simp_all add: handle_launch_request.simps [of P req L w] Let_def start w2'
        send_output_event_def send_terminated_event_def emit_def plain_texts_def
        format_defined_def split: option.splits)
qed

text \<open>
  Claim C5 fails in the code when loading fails and the program's name holds a
  \<open>%\<close>. Lines 273-275 put the name into the text of the output event, and line
  77 hands the serialised event to \<open>fprintf\<close> as the format. For the program
  "%s%s%s%s.lua", which cannot be loaded, the text holds four conversions for
  which there is no argument: the behaviour is undefined, nothing has been
  printed, and the error response "Launch failed" is never sent. In a session
  that begins with an initialize request, the launch request is the last item
  read, the trace ends with it, and the process has no defined exit code.
\<close>

theorem launch_percent_undefined:
  "debugger_state w_init = DEBUGGER_INITIALIZED \<and>
   luaL_loadfile L_prog (program req_percent) = Inl ''cannot open file'' \<and>
   \<not> format_defined (EventMessage (OutputEvent
      ''Failed to launch %s%s%s%s.lua due to error: cannot open file'')) \<and>
   handle_launch_request P0 req_percent L_prog w_init = Undefined w_init \<and>
   main P0 True (Some L_prog)
       [Frame VSCODE_INITIALIZE_REQUEST req0, Frame VSCODE_LAUNCH_REQUEST req_percent,
        Frame VSCODE_DISCONNECT_REQUEST req0] =
     (None,
      \<lparr>debugger_state = DEBUGGER_INITIALIZED, thread_event_sent = 0,
       input = [Frame VSCODE_DISCONNECT_REQUEST req0],
       io = [Read (Frame VSCODE_INITIALIZE_REQUEST req0),
             Emit (EventMessage InitializedEvent),
             Emit (ResponseMessage
               \<lparr>request_seq = 1, response_command = ''threads'',
                response_type = VSCODE_INITIALIZE_RESPONSE, success = True, message = [],
                body = InitializeResponse 1\<rparr>),
             Emit (EventMessage (OutputEvent ''Debugger initialized'')),
             Read (Frame VSCODE_LAUNCH_REQUEST req_percent)]\<rparr>)"
proof -
  have st: "debugger_state w_init = DEBUGGER_INITIALIZED" by (simp add: w_init_def)
  have ld: "luaL_loadfile L_prog (program req_percent) = Inl ''cannot open file''"
    by (simp add: luaL_loadfile_def L_prog_def req_percent_def req_launch_def)
  have pr: "program req_percent = ''%s%s%s%s.lua''"
    by (simp add: req_percent_def req_launch_def)
  have ld': "luaL_loadfile L_prog ''%s%s%s%s.lua'' = Inl ''cannot open file''"
    using ld by (simp add: pr)
  have fd: "\<not> format_defined (EventMessage (OutputEvent
      ''Failed to launch %s%s%s%s.lua due to error: cannot open file''))"
    by (simp add: format_defined_def)
  have hl: "handle_launch_request P0 req_percent L_prog v = Undefined v"
    if "debugger_state v = DEBUGGER_INITIALIZED" for v
    by (subst handle_launch_request.simps)
      (simp add: that pr ld' snprintf_def Let_def send_output_event_def emit_def
        plain_texts_def format_defined_def)
  have mn: "main P0 True (Some L_prog)
       [Frame VSCODE_INITIALIZE_REQUEST req0, Frame VSCODE_LAUNCH_REQUEST req_percent,
        Frame VSCODE_DISCONNECT_REQUEST req0] =
     (None,
      \<lparr>debugger_state = DEBUGGER_INITIALIZED, thread_event_sent = 0,
       input = [Frame VSCODE_DISCONNECT_REQUEST req0],
       io = [Read (Frame VSCODE_INITIALIZE_REQUEST req0),
             Emit (EventMessage InitializedEvent),
             Emit (ResponseMessage
               \<lparr>request_seq = 1, response_command = ''threads'',
                response_type = VSCODE_INITIALIZE_RESPONSE, success = True, message = [],
                body = InitializeResponse 1\<rparr>),
             Emit (EventMessage (OutputEvent ''Debugger initialized'')),
             Read (Frame VSCODE_LAUNCH_REQUEST req_percent)]\<rparr>)"
    by (simp add: main_def Let_def lua_sethook_def debugger.simps debugger_loop.simps
        dispatch.simps with_get_command_def stop_announcement_def
        handle_initialize_request_def send_output_event_def emit_def plain_texts_def
        recognised_response_def vscode_make_success_response_def req0_def
        hl [unfolded L_prog_def main_hook_mask_def] L_prog_def main_hook_mask_def)
  show ?thesis using st ld fd hl [OF st] mn by simp
qed

subsection \<open>The first stop\<close>

lemma io_final_debugger_case:
  "io (final_world (case r of Exited c w2 \<Rightarrow> Exited c w2 | Undefined w2 \<Rightarrow> Undefined w2
        | Returned w2 \<Rightarrow> Returned (w2\<lparr>debugger_state := s\<rparr>))) = io (final_world r)"
  by (cases r) simp_all


text \<open>
  A whole session: initialize, launch of "a.lua", and during the stops a
  stackTrace, a next and a stepIn request.
\<close>

lemma session_run:
  "main P0 True (Some L_prog) session_input =
    (Some 0, \<lparr>debugger_state = DEBUGGER_PROGRAM_RUNNING, thread_event_sent = 1, input = [],
         io = [Read (Frame VSCODE_INITIALIZE_REQUEST req0),
               Emit (EventMessage InitializedEvent),
               Emit (ResponseMessage
                 \<lparr>request_seq = 1, response_command = ''threads'',
                  response_type = VSCODE_INITIALIZE_RESPONSE, success = True, message = [],
                  body = InitializeResponse 1\<rparr>),
               Emit (EventMessage (OutputEvent ''Debugger initialized'')),
               Read (Frame VSCODE_LAUNCH_REQUEST req_launch),
               Emit (ResponseMessage
                 \<lparr>request_seq = 2, response_command = ''launch'',
                  response_type = VSCODE_LAUNCH_RESPONSE, success = True, message = [],
                  body = NoBody\<rparr>),
               Emit (EventMessage (ThreadEvent True)),
               Emit (EventMessage (StoppedEvent ''entry'')),
               Read (Frame VSCODE_STACK_TRACE_REQUEST (req0\<lparr>levels := 20\<rparr>)),
               Emit (ResponseMessage
                 \<lparr>request_seq = 1, response_command = ''threads'',
                  response_type = VSCODE_STACK_TRACE_RESPONSE, success = True, message = [],
                  body = StackTraceResponse
                    [\<lparr>frame_id = 0, source_path = ''/a/b.lua'', source_name = ''b.lua'',
                      frame_line = 1, frame_name = ''?''\<rparr>] 1\<rparr>),
               Read (Frame VSCODE_NEXT_REQUEST req0),
               Emit (ResponseMessage
                 \<lparr>request_seq = 1, response_command = ''threads'',
                  response_type = VSCODE_NEXT_RESPONSE, success = True, message = [],
                  body = NoBody\<rparr>),
               Emit (EventMessage (StoppedEvent ''step'')),
               Read (Frame VSCODE_STEPIN_REQUEST req0),
               Emit (ResponseMessage
                 \<lparr>request_seq = 1, response_command = ''threads'',
                  response_type = VSCODE_STEPIN_RESPONSE, success = True, message = [],
                  body = NoBody\<rparr>),
               Emit (EventMessage TerminatedEvent)]\<rparr>)"
  by (simp add: main_def Let_def session_input_def L_prog_def lua_sethook_def
      debugger.simps debugger_loop.simps dispatch.simps handle_launch_request.simps
      run_loaded.simps ravi_debughook.simps luaL_loadfile_def req_launch_def
      with_get_command_def stop_announcement_def plain_texts_def recognised_response_def
      handle_initialize_request_def send_output_event_def send_success_response_def
      send_error_response_def send_stopped_event_def send_thread_event_def
      send_terminated_event_def emit_def
      call_hook_def line_hook_def main_hook_mask_def frame0_def
      vscode_make_success_response_def vscode_make_error_response_def req0_def
      handle_stack_trace_request_def stack_trace_loop.simps lua_getstack_def
      stack_frame_of_def strrchr_def strncpy_def array_write_def P0_def)

text \<open>
  Claim C6. In every session (every run of \<open>main\<close>, on every input), the thread
  and stopped events emitted are either none at all, or one thread event with
  \<open>started = true\<close>, then a stopped event with reason "entry", then only stopped
  events with reason "step". And every call of \<open>debugger\<close> in state
  ProgramRunning (a hook stop) emits its events first, before anything is read:
  the thread event and the stopped event "entry" when no thread event was sent
  yet, otherwise only the stopped event "step"; the rest of that stop holds no
  thread or stopped event.
\<close>

theorem stops_announced_in_order:
  "first_stop_contract (stop_events (io (snd (main P log_opened newstate inp)))) \<and>
   (debugger_state w = DEBUGGER_PROGRAM_RUNNING \<longrightarrow>
      (\<exists>rest.
         io (final_world (debugger P L init ar w)) =
           io w @
           (if thread_event_sent w = 0 then
              [Emit (EventMessage (ThreadEvent True)),
               Emit (EventMessage (StoppedEvent ''entry''))]
            else [Emit (EventMessage (StoppedEvent ''step''))]) @ rest \<and>
         stop_events rest = []))"
proof
  define w0 where
    "w0 = \<lparr>debugger_state = DEBUGGER_BIRTH, thread_event_sent = 0, input = inp, io = []\<rparr>"
  have inv0: "stop_invariant w0" by (simp add: stop_invariant_def w0_def)
  show "first_stop_contract (stop_events (io (snd (main P log_opened newstate inp))))"
  proof (cases "log_opened \<and> newstate \<noteq> None")
    case False
    then show ?thesis
      by (cases newstate) (auto simp: main_def Let_def)
  next
    case True
    then obtain La where ns: "newstate = Some La" by auto
    have "stop_invariant (final_world (debugger P (lua_sethook La main_hook_mask) True None w0))"
      using inv0 by (rule stop_invariant_kept)
    moreover have "snd (main P log_opened newstate inp) =
        final_world (debugger P (lua_sethook La main_hook_mask) True None w0)"
      using True ns
      by (cases "debugger P (lua_sethook La main_hook_mask) True None w0")
        (simp_all add: main_def Let_def w0_def)
    ultimately show ?thesis by (simp add: stop_invariant_def)
  qed
next
  show "debugger_state w = DEBUGGER_PROGRAM_RUNNING \<longrightarrow>
      (\<exists>rest.
         io (final_world (debugger P L init ar w)) =
           io w @
           (if thread_event_sent w = 0 then
              [Emit (EventMessage (ThreadEvent True)),
               Emit (EventMessage (StoppedEvent ''entry''))]
            else [Emit (EventMessage (StoppedEvent ''step''))]) @ rest \<and>
         stop_events rest = [])"
  proof
    assume run: "debugger_state w = DEBUGGER_PROGRAM_RUNNING"
    define ann where "ann =
      (if thread_event_sent w = 0 then
         [Emit (EventMessage (ThreadEvent True)), Emit (EventMessage (StoppedEvent ''entry''))]
       else [Emit (EventMessage (StoppedEvent ''step''))])"
    define w1 where "w1 =
      (if thread_event_sent w = 0 then
         w\<lparr>thread_event_sent := 1,
           io := io w @ [Emit (EventMessage (ThreadEvent True)),
                         Emit (EventMessage (StoppedEvent ''entry''))],
           debugger_state := DEBUGGER_PROGRAM_STOPPED\<rparr>
       else
         w\<lparr>io := io w @ [Emit (EventMessage (StoppedEvent ''step''))],
           debugger_state := DEBUGGER_PROGRAM_STOPPED\<rparr>)"
    have io1: "io w1 = io w @ ann"
      by (simp add: w1_def ann_def)
    have st1: "debugger_state w1 \<noteq> DEBUGGER_BIRTH" "debugger_state w1 \<noteq> DEBUGGER_INITIALIZED"
      by (simp_all add: w1_def)
    have unf: "debugger P L init ar w =
        (case debugger_loop P L w1 of
           Exited c w2 \<Rightarrow> Exited c w2
         | Undefined w2 \<Rightarrow> Undefined w2
         | Returned w2 \<Rightarrow> Returned (w2\<lparr>debugger_state := DEBUGGER_PROGRAM_RUNNING\<rparr>))"
      using run by (simp add: debugger.simps [of P L init ar w] stop_announcement_result w1_def)
    obtain rest where rest: "io (final_world (debugger_loop P L w1)) = io w1 @ rest"
      using io_grows(1) [of P L w1] by blast
    have "stop_events (io (final_world (debugger_loop P L w1))) = stop_events (io w1)"
      using st1 by (rule loop_serving(2))
    then have "stop_events rest = []" by (simp add: rest)
    moreover have "io (final_world (debugger P L init ar w)) = io w @ ann @ rest"
      unfolding unf io_final_debugger_case rest io1 by simp
    ultimately show "\<exists>rest.
         io (final_world (debugger P L init ar w)) =
           io w @
           (if thread_event_sent w = 0 then
              [Emit (EventMessage (ThreadEvent True)),
               Emit (EventMessage (StoppedEvent ''entry''))]
            else [Emit (EventMessage (StoppedEvent ''step''))]) @ rest \<and>
         stop_events rest = []"
      unfolding ann_def by blast
  qed
qed

theorem stops_announced_in_order_witness:
  "stop_events (io (snd (main P0 True (Some L_prog) session_input))) =
     [ThreadEvent True, StoppedEvent ''entry'', StoppedEvent ''step''] \<and>
   first_stop_contract (stop_events (io (snd (main P0 True (Some L_prog) session_input)))) \<and>
   debugger_state w_running = DEBUGGER_PROGRAM_RUNNING \<and>
   (\<exists>rest.
      io (final_world (debugger P0 L1 False (Some frame0) w_running)) =
        [Emit (EventMessage (ThreadEvent True)),
         Emit (EventMessage (StoppedEvent ''entry''))] @ rest \<and>
      stop_events rest = [])"
  using stops_announced_in_order
    [of P0 True "Some L_prog" session_input w_running L1 False "Some frame0"]
  by (simp add: session_run w_running_def)

end
